theory Spec2Isabelle
  imports Main
begin

section \<open>JavaScript helpers\<close>

text \<open>
  Timestamps are the integer milliseconds of \<open>Date.now()\<close>; counters are small
  integers. Both are modelled as \<open>int\<close>. Strings are \<open>char list\<close>.
\<close>

text \<open>\<open>Math.ceil(a / b)\<close> for integers \<open>a\<close> and a positive integer \<open>b\<close>.\<close>

definition ceil_div :: "int \<Rightarrow> int \<Rightarrow> int" where
  "ceil_div a b = - ((- a) div b)"

text \<open>The decimal text a template literal gives an integer.\<close>

fun digit_chars :: "nat \<Rightarrow> string" where
  "digit_chars n =
     (if n < 10 then [char_of (48 + n)]
      else digit_chars (n div 10) @ [char_of (48 + n mod 10)])"

declare digit_chars.simps [simp del]

definition number_string :: "int \<Rightarrow> string" where
  "number_string i =
     (if i < 0 then CHR ''-'' # digit_chars (nat (- i)) else digit_chars (nat i))"

text \<open>\<open>s.includes(sub)\<close>: \<open>sub\<close> occurs in \<open>s\<close> as a contiguous run.\<close>

definition startsWith :: "string \<Rightarrow> string \<Rightarrow> bool" where
  "startsWith s sub = (take (length sub) s = sub)"

fun str_includes :: "string \<Rightarrow> string \<Rightarrow> bool" where
  "str_includes [] sub = (sub = [])"
| "str_includes (c # cs) sub = (startsWith (c # cs) sub \<or> str_includes cs sub)"

section \<open>Rate limiter\<close>

text \<open>
  \<open>rateLimiter.attempts\<close> is a \<open>Map\<close> from the phone number (as a string key) to an
  entry \<open>{count, timestamp, blocked}\<close>.
\<close>

record attempt =
  count :: int
  timestamp :: int
  blocked :: bool

type_synonym attempts = "string \<rightharpoonup> attempt"

record limit_result =
  allowed :: bool
  message :: "string option"
  retryAfter :: "int option"

definition cleanupInterval :: int where
  "cleanupInterval = 60 * 60 * 1000"

text \<open>
  \<open>checkLimit(phoneNumber)\<close>, with \<open>now\<close> the value of \<open>Date.now()\<close>. The entry is
  mutated in place in the source; the model returns the updated map.
\<close>

definition checkLimit :: "int \<Rightarrow> string \<Rightarrow> attempts \<Rightarrow> limit_result \<times> attempts" where
  "checkLimit now key m =
     (case m key of
        None \<Rightarrow>
          (\<lparr>allowed = True, message = None, retryAfter = None\<rparr>,
           m(key \<mapsto> \<lparr>count = 1, timestamp = now, blocked = False\<rparr>))
      | Some a \<Rightarrow>
          if now - timestamp a > cleanupInterval then
            (\<lparr>allowed = True, message = None, retryAfter = None\<rparr>,
             m(key \<mapsto> a\<lparr>count := 1, timestamp := now, blocked := False\<rparr>))
          else if blocked a then
            (let remainingTime = ceil_div (timestamp a + cleanupInterval - now) 1000 in
             (\<lparr>allowed = False,
               message = Some (''Too many attempts. Please try again after ''
                               @ number_string (ceil_div remainingTime 60) @ '' minutes''),
               retryAfter = Some (timestamp a + cleanupInterval)\<rparr>,
              m))
          else
            (let a' = a\<lparr>count := count a + 1\<rparr> in
             if count a' > 10 then
               (\<lparr>allowed = False,
                 message = Some ''Too many attempts. Please try again after 1 hour'',
                 retryAfter = Some (now + cleanupInterval)\<rparr>,
                m(key \<mapsto> a'\<lparr>blocked := True\<rparr>))
             else
               (\<lparr>allowed = True, message = None, retryAfter = None\<rparr>, m(key \<mapsto> a'))))"

text \<open>The periodic sweep installed by \<open>init\<close>, and \<open>cleanup\<close>.\<close>

definition sweep :: "int \<Rightarrow> attempts \<Rightarrow> attempts" where
  "sweep now m =
     (\<lambda>key. case m key of
               None \<Rightarrow> None
             | Some a \<Rightarrow> if now - timestamp a > cleanupInterval then None else Some a)"

definition cleanup :: "attempts \<Rightarrow> attempts" where
  "cleanup m = Map.empty"

text \<open>A sequence of \<open>checkLimit\<close> calls for one phone number, at the given times.\<close>

fun checkLimit_calls :: "string \<Rightarrow> int list \<Rightarrow> attempts \<Rightarrow> limit_result list \<times> attempts" where
  "checkLimit_calls key [] m = ([], m)"
| "checkLimit_calls key (t # ts) m =
     (case checkLimit t key m of
        (r, m') \<Rightarrow> (case checkLimit_calls key ts m' of (rs, m'') \<Rightarrow> (r # rs, m'')))"

text \<open>Everything that can happen to the limiter's map: a call, a sweep, a shutdown.\<close>

datatype limiter_event = CheckLimit int string | Sweep int | Cleanup

fun limiter_step :: "limiter_event \<Rightarrow> attempts \<Rightarrow> attempts" where
  "limiter_step (CheckLimit now key) m = snd (checkLimit now key m)"
| "limiter_step (Sweep now) m = sweep now m"
| "limiter_step Cleanup m = cleanup m"

fun limiter_run :: "limiter_event list \<Rightarrow> attempts \<Rightarrow> attempts" where
  "limiter_run [] m = m"
| "limiter_run (e # es) m = limiter_run es (limiter_step e m)"


section \<open>Phone number validation\<close>

definition isDigit :: "char \<Rightarrow> bool" where
  "isDigit c = (c \<in> set ''0123456789'')"

text \<open>
  \<open>phoneNumber.replace(/(?!^\+)[^\d]/g, '')\<close>: every character that is not a digit is
  removed, except a \<open>+\<close> at index 0 of the input.
\<close>

definition cleanNumber :: "string \<Rightarrow> string" where
  "cleanNumber phoneNumber =
     (case phoneNumber of
        [] \<Rightarrow> []
      | c # cs \<Rightarrow> if c = CHR ''+'' then c # filter isDigit cs else filter isDigit (c # cs))"

text \<open>\<open>/^\+?[1-9]\d{1,14}$/\<close>.\<close>

definition matches_international :: "string \<Rightarrow> bool" where
  "matches_international s =
     (case (case s of [] \<Rightarrow> [] | c # cs \<Rightarrow> if c = CHR ''+'' then cs else s) of
        [] \<Rightarrow> False
      | d # ds \<Rightarrow> d \<in> set ''123456789'' \<and> 1 \<le> length ds \<and> length ds \<le> 14
                 \<and> list_all isDigit ds)"

text \<open>\<open>validatePhoneNumber\<close>: \<open>Inl\<close> carries the message of the thrown \<open>Error\<close>.\<close>

definition validatePhoneNumber :: "string \<Rightarrow> string + string" where
  "validatePhoneNumber phoneNumber =
     (let cleanNumber = cleanNumber phoneNumber in
      if \<not> matches_international cleanNumber then
        Inl ''Invalid phone number format. Please use international format (e.g., +1234567890)''
      else if length cleanNumber < 8 then
        Inl ''Phone number too short. Please include country code.''
      else if length cleanNumber > 15 then
        Inl ''Phone number too long. Maximum 15 digits allowed.''
      else Inr cleanNumber)"

section \<open>SMS delivery\<close>

text \<open>
  A configured provider client either delivers the message or rejects with an error whose
  \<open>message\<close> is the given text. \<open>None\<close> for a client means it is not configured.
\<close>

datatype sms_outcome = Delivered | Rejected string

record env =
  NODE_ENV :: string
  messageBirdClient :: "sms_outcome option"
  twilioClient :: "sms_outcome option"

text \<open>\<open>errors.join(', ')\<close>.\<close>

fun join_comma :: "string list \<Rightarrow> string" where
  "join_comma [] = []"
| "join_comma [x] = x"
| "join_comma (x # y # ys) = x @ '', '' @ join_comma (y # ys)"

text \<open>The body of the \<open>try\<close> block of \<open>sendSMS\<close>.\<close>

definition sendSMS_body :: "env \<Rightarrow> string \<Rightarrow> string \<Rightarrow> string + unit" where
  "sendSMS_body e phoneNumber text =
     (case validatePhoneNumber phoneNumber of
        Inl err \<Rightarrow> Inl err
      | Inr validatedNumber \<Rightarrow>
          if messageBirdClient e = None \<and> twilioClient e = None then
            (if NODE_ENV e = ''development'' then Inr ()
             else Inl ''No SMS service configured. Please configure MessageBird or Twilio.'')
          else
            (case messageBirdClient e of
               Some Delivered \<Rightarrow> Inr ()
             | _ \<Rightarrow>
                 (let errors1 = (case messageBirdClient e of
                                   Some (Rejected m) \<Rightarrow> [''MessageBird: '' @ m]
                                 | _ \<Rightarrow> [])
                  in case twilioClient e of
                       Some Delivered \<Rightarrow> Inr ()
                     | _ \<Rightarrow>
                         (let errors2 = errors1 @ (case twilioClient e of
                                                     Some (Rejected m) \<Rightarrow> [''Twilio: '' @ m]
                                                   | _ \<Rightarrow> [])
                          in Inl (''Failed to send SMS: '' @ join_comma errors2)))))"

text \<open>\<open>sendSMS\<close>: the \<open>catch\<close> wraps every error whose message includes \<open>phone number\<close>.\<close>

definition sendSMS :: "env \<Rightarrow> string \<Rightarrow> string \<Rightarrow> string + unit" where
  "sendSMS e phoneNumber text =
     (case sendSMS_body e phoneNumber text of
        Inl err \<Rightarrow>
          if str_includes err ''phone number''
          then Inl (''Phone number validation failed: '' @ err)
          else Inl err
      | Inr u \<Rightarrow> Inr u)"

section \<open>The user entity and its OTP methods\<close>

record phone_otp =
  code :: "string option"
  expiresAt :: "int option"
  attempts :: int

record otp_request_count =
  count :: int
  lastRequest :: int

record user =
  uid :: nat
  phoneNumber :: string
  isActive :: bool
  phoneOTP :: phone_otp
  otpRequestCount :: otp_request_count
  refreshToken :: "string option"

definition day_ms :: int where
  "day_ms = 24 * 60 * 60 * 1000"

text \<open>
  Modelled from the spec: the methods \<open>canRequestOTP\<close>, \<open>generateOTP\<close> and \<open>verifyOTP\<close>
  of the user model (\<open>models/User.js\<close>), which is not among the sources. They follow
  the operations \<open>canRequestOtp\<close>, \<open>generateOtp\<close> and \<open>verifyOtp\<close> of the
  specification's section 4.2.

  \<open>canRequestOtp\<close>: allowed unless \<open>count >= 5\<close> and less than 24 hours have elapsed
  since \<open>lastRequest\<close>.
\<close>

definition canRequestOTP :: "int \<Rightarrow> user \<Rightarrow> bool" where
  "canRequestOTP now u =
     (\<not> (otp_request_count.count (otpRequestCount u) \<ge> 5
         \<and> now - lastRequest (otpRequestCount u) < day_ms))"

text \<open>
  Modelled from the spec: \<open>generateOtp\<close>. The drawn six-digit code is the argument
  \<open>drawn\<close>; the method returns it and updates the user: \<open>code\<close> set,
  \<open>expiresAt = now + 60s\<close>, \<open>attempts = 0\<close>; the quota restarts at 1 when 24 hours
  have elapsed since \<open>lastRequest\<close> and is incremented otherwise, \<open>lastRequest = now\<close>.
\<close>

definition generateOTP :: "int \<Rightarrow> string \<Rightarrow> user \<Rightarrow> string \<times> user" where
  "generateOTP now drawn u =
     (let q = otpRequestCount u;
          q' = (if now - lastRequest q < day_ms
                then q\<lparr>otp_request_count.count := otp_request_count.count q + 1, lastRequest := now\<rparr>
                else q\<lparr>otp_request_count.count := 1, lastRequest := now\<rparr>)
      in (drawn,
          u\<lparr>phoneOTP := \<lparr>code = Some drawn, expiresAt = Some (now + 60 * 1000), attempts = 0\<rparr>,
            otpRequestCount := q'\<rparr>))"

datatype verify_message = NoOtpRequested | OtpExpired | TooManyAttempts | IncorrectOtp | Verified

record verify_result =
  isValid :: bool
  message :: verify_message

text \<open>
  Modelled from the spec: \<open>verifyOtp\<close>. It fails closed when \<open>code\<close> is absent, when
  the code is no longer valid (an OTP is valid only while the current time is before
  \<open>expiresAt\<close>), and when \<open>attempts >= 3\<close>; otherwise it increments \<open>attempts\<close> and
  compares the strings, clearing \<open>code\<close> and \<open>expiresAt\<close> on a match.
\<close>

definition verifyOTP_method :: "int \<Rightarrow> string \<Rightarrow> user \<Rightarrow> verify_result \<times> user" where
  "verifyOTP_method now submittedCode u =
     (let p = phoneOTP u in
      case code p of
        None \<Rightarrow> (\<lparr>isValid = False, message = NoOtpRequested\<rparr>, u)
      | Some c \<Rightarrow>
          if \<not> (case expiresAt p of None \<Rightarrow> False | Some ex \<Rightarrow> now < ex) then
            (\<lparr>isValid = False, message = OtpExpired\<rparr>, u)
          else if attempts p \<ge> 3 then
            (\<lparr>isValid = False, message = TooManyAttempts\<rparr>, u)
          else
            (let p' = p\<lparr>attempts := attempts p + 1\<rparr> in
             if submittedCode = c then
               (\<lparr>isValid = True, message = Verified\<rparr>,
                u\<lparr>phoneOTP := p'\<lparr>code := None, expiresAt := None\<rparr>\<rparr>)
             else
               (\<lparr>isValid = False, message = IncorrectOtp\<rparr>, u\<lparr>phoneOTP := p'\<rparr>)))"

text \<open>The text of a verification message; only the first is fixed by the specification.\<close>

fun verify_text :: "verify_message \<Rightarrow> string" where
  "verify_text NoOtpRequested = ''No OTP requested''"
| "verify_text OtpExpired = ''OTP has expired''"
| "verify_text TooManyAttempts = ''Too many attempts''"
| "verify_text IncorrectOtp = ''Incorrect OTP''"
| "verify_text Verified = ''OTP verified''"

text \<open>A sequence of \<open>verifyOtp\<close> calls on one user, each at a time and with a submitted code.\<close>

fun verifyOTP_calls :: "(int \<times> string) list \<Rightarrow> user \<Rightarrow> verify_result list \<times> user" where
  "verifyOTP_calls [] u = ([], u)"
| "verifyOTP_calls ((now, c) # cs) u =
     (case verifyOTP_method now c u of
        (r, u') \<Rightarrow> (case verifyOTP_calls cs u' of (rs, u'') \<Rightarrow> (r # rs, u'')))"


section \<open>The OTP request handlers\<close>

text \<open>
  The process state the handlers touch: the rate limiter's map and the user collection.
  \<open>findOne\<close> is \<open>User.findOne({ phoneNumber })\<close>; \<open>save\<close> is \<open>user.save()\<close>, which
  replaces the stored document with the same \<open>_id\<close>. Database calls are taken to
  succeed. One \<open>now\<close> stands for every \<open>Date.now()\<close> of a request.
\<close>

record state =
  limiter :: attempts
  users :: "user list"

definition findOne :: "string \<Rightarrow> user list \<Rightarrow> user option" where
  "findOne p us = find (\<lambda>u. phoneNumber u = p) us"

definition save :: "user \<Rightarrow> user list \<Rightarrow> user list" where
  "save u us = map (\<lambda>v. if uid v = uid u then u else v) us"

text \<open>
  The HTTP status and the JSON body. A field that is \<open>undefined\<close> (and so left out of
  the body) or \<open>null\<close> is \<open>None\<close>.
\<close>

record response =
  status :: nat
  success :: bool
  msg :: "string option"
  retryAfter :: "int option"
  nextAllowedDate :: "int option"
  expiresIn :: "int option"
  remainingAttempts :: "int option"
  otp :: "string option"
  error :: "string option"
  canRequestNew :: "bool option"
  accessToken :: "string option"
  refreshToken :: "string option"
  user_json :: "user option"
  isPhoneVerified :: "bool option"

definition json :: "nat \<Rightarrow> bool \<Rightarrow> string option \<Rightarrow> response" where
  "json st ok m =
     \<lparr>status = st, success = ok, msg = m, retryAfter = None, nextAllowedDate = None,
      expiresIn = None, remainingAttempts = None, otp = None, error = None,
      canRequestNew = None, accessToken = None, refreshToken = None, user_json = None,
      isPhoneVerified = None\<rparr>"

text \<open>The 429 answer of both handlers when the rate limiter refuses.\<close>

definition rate_limited :: "limit_result \<Rightarrow> response" where
  "rate_limited r =
     (json 429 False (limit_result.message r))\<lparr>retryAfter := limit_result.retryAfter r\<rparr>"

text \<open>The 429 answer of both handlers when \<open>canRequestOTP\<close> refuses.\<close>

definition quota_exceeded :: "int \<Rightarrow> user \<Rightarrow> response" where
  "quota_exceeded now u =
     (let hoursSinceLastRequest =
            ceil_div (now - lastRequest (otpRequestCount u)) (1000 * 60 * 60)
      in (json 429 False
            (Some (''Daily OTP limit exceeded. Please try again after ''
                   @ number_string (24 - hoursSinceLastRequest) @ '' hours.'')))
         \<lparr>nextAllowedDate := Some (lastRequest (otpRequestCount u) + day_ms)\<rparr>)"

text \<open>The revert both handlers make when the SMS could not be sent.\<close>

definition revert_otp :: "user \<Rightarrow> user" where
  "revert_otp u =
     u\<lparr>phoneOTP := (phoneOTP u)\<lparr>code := None, expiresAt := None\<rparr>,
       otpRequestCount := (otpRequestCount u)
         \<lparr>otp_request_count.count := otp_request_count.count (otpRequestCount u) - 1\<rparr>\<rparr>"

text \<open>The 200 answer of \<open>sendOTP\<close> and \<open>resendOTP\<close>, which differ in the text only.\<close>

definition otp_sent :: "env \<Rightarrow> string \<Rightarrow> string \<Rightarrow> user \<Rightarrow> response" where
  "otp_sent e txt generated u =
     (json 200 True (Some txt))
       \<lparr>expiresIn := Some 60,
        remainingAttempts := Some (5 - otp_request_count.count (otpRequestCount u)),
        retryAfter := expiresAt (phoneOTP u),
        otp := (if NODE_ENV e = ''development'' then Some generated else None)\<rparr>"

text \<open>The outer \<open>catch\<close> of \<open>sendOTP\<close> and of \<open>resendOTP\<close>, given the error's message.\<close>

definition server_error :: "env \<Rightarrow> string \<Rightarrow> string \<Rightarrow> response" where
  "server_error e fallback err =
     (json 500 False (Some (if err = [] then fallback else err)))
       \<lparr>error := (if NODE_ENV e = ''development'' then Some err else None)\<rparr>"

definition sendOTP_catch :: "env \<Rightarrow> string \<Rightarrow> response" where
  "sendOTP_catch e err =
     (if str_includes err ''validation failed'' then json 400 False (Some err)
      else server_error e ''Error sending OTP'' err)"

definition resendOTP_catch :: "env \<Rightarrow> string \<Rightarrow> response" where
  "resendOTP_catch e err = server_error e ''Error resending OTP'' err"

text \<open>
  \<open>sendOTP\<close>. \<open>phone\<close> is \<open>req.body.phoneNumber\<close> (\<open>None\<close> when missing) and
  \<open>drawn\<close> the code \<open>generateOTP\<close> draws.
\<close>

definition sendOTP :: "env \<Rightarrow> int \<Rightarrow> string \<Rightarrow> string option \<Rightarrow> state \<Rightarrow> response \<times> state" where
  "sendOTP e now drawn phone st =
     (case phone of
        None \<Rightarrow> (json 400 False (Some ''Phone number is required''), st)
      | Some p \<Rightarrow>
          if p = [] then (json 400 False (Some ''Phone number is required''), st)
          else
            (case checkLimit now p (limiter st) of
               (rateLimitResult, lim) \<Rightarrow>
                 (let st1 = st\<lparr>limiter := lim\<rparr> in
                  if \<not> allowed rateLimitResult then (rate_limited rateLimitResult, st1)
                  else
                    (case findOne p (users st1) of
                       None \<Rightarrow> (json 404 False (Some ''No user found with this phone number''), st1)
                     | Some u \<Rightarrow>
                         if \<not> isActive u then
                           (json 401 False (Some ''Account is deactivated. Please contact support.''), st1)
                         else if \<not> canRequestOTP now u then (quota_exceeded now u, st1)
                         else
                           (case generateOTP now drawn u of
                              (generated, u1) \<Rightarrow>
                                (let st2 = st1\<lparr>users := save u1 (users st1)\<rparr> in
                                 case sendSMS e p (''Your verification code is: '' @ generated
                                        @ ''. Valid for 60 seconds. Do not share this code with anyone.'') of
                                   Inr _ \<Rightarrow> (otp_sent e ''OTP sent successfully'' generated u1, st2)
                                 | Inl smsError \<Rightarrow>
                                     if NODE_ENV e \<noteq> ''development'' then
                                       (sendOTP_catch e (''Failed to send OTP: '' @ smsError),
                                        st2\<lparr>users := save (revert_otp u1) (users st2)\<rparr>)
                                     else (otp_sent e ''OTP sent successfully'' generated u1, st2)))))))"

text \<open>\<open>resendOTP\<close>, for a request body that carries a \<open>phoneNumber\<close> string.\<close>

definition resendOTP :: "env \<Rightarrow> int \<Rightarrow> string \<Rightarrow> string \<Rightarrow> state \<Rightarrow> response \<times> state" where
  "resendOTP e now drawn p st =
     (case checkLimit now p (limiter st) of
        (rateLimitResult, lim) \<Rightarrow>
          (let st1 = st\<lparr>limiter := lim\<rparr> in
           if \<not> allowed rateLimitResult then (rate_limited rateLimitResult, st1)
           else
             (case findOne p (users st1) of
                None \<Rightarrow> (json 404 False (Some ''No user found with this phone number''), st1)
              | Some u \<Rightarrow>
                  if (case expiresAt (phoneOTP u) of None \<Rightarrow> False | Some ex \<Rightarrow> ex > now) then
                    (let remainingTime = ceil_div (the (expiresAt (phoneOTP u)) - now) 1000 in
                     ((json 429 False
                         (Some (''Please wait '' @ number_string remainingTime
                                @ '' seconds before requesting a new OTP'')))
                        \<lparr>retryAfter := expiresAt (phoneOTP u)\<rparr>,
                      st1))
                  else if \<not> canRequestOTP now u then (quota_exceeded now u, st1)
                  else
                    (case generateOTP now drawn u of
                       (generated, u1) \<Rightarrow>
                         (let st2 = st1\<lparr>users := save u1 (users st1)\<rparr> in
                          case sendSMS e p (''Your new verification code is: '' @ generated
                                 @ ''. Valid for 60 seconds. Do not share this code with anyone.'') of
                            Inr _ \<Rightarrow> (otp_sent e ''New OTP sent successfully'' generated u1, st2)
                          | Inl smsError \<Rightarrow>
                              if NODE_ENV e \<noteq> ''development'' then
                                (resendOTP_catch e smsError,
                                 st2\<lparr>users := save (revert_otp u1) (users st2)\<rparr>)
                              else (otp_sent e ''New OTP sent successfully'' generated u1, st2))))))"

text \<open>\<open>/^\d{6}$/.test(otp)\<close>.\<close>

definition otp_format :: "string \<Rightarrow> bool" where
  "otp_format s = (length s = 6 \<and> list_all isDigit s)"

text \<open>
  \<open>verifyOTP\<close>. \<open>generateTokens\<close> stands for the two \<open>jwt.sign\<close> calls. The awaited
  \<open>user.verifyOTP(otp)\<close> is taken to persist the user it changed. The notification
  added on success is not part of the modelled state, and \<open>user.toJSON()\<close> is the user.
\<close>

definition verifyOTP :: "(nat \<Rightarrow> string \<times> string) \<Rightarrow> int \<Rightarrow> string option \<Rightarrow> string option \<Rightarrow> state
    \<Rightarrow> response \<times> state" where
  "verifyOTP generateTokens now phone otp_field st =
     (if (case phone of None \<Rightarrow> True | Some p \<Rightarrow> p = [])
         \<or> (case otp_field of None \<Rightarrow> True | Some s \<Rightarrow> s = []) then
        (json 400 False (Some ''Phone number and OTP are required''), st)
      else if \<not> otp_format (the otp_field) then
        (json 400 False (Some ''Invalid OTP format. Must be 6 digits.''), st)
      else
        (case findOne (the phone) (users st) of
           None \<Rightarrow> (json 404 False (Some ''No user found with this phone number''), st)
         | Some u \<Rightarrow>
             if \<not> isActive u then
               (json 401 False (Some ''Account is deactivated. Please contact support.''), st)
             else
               (case verifyOTP_method now (the otp_field) u of
                  (verificationResult, u1) \<Rightarrow>
                    (let st1 = st\<lparr>users := save u1 (users st)\<rparr> in
                     if \<not> isValid verificationResult then
                       (let remaining = 3 - attempts (phoneOTP u1) in
                        ((json 400 False (Some (verify_text (message verificationResult))))
                           \<lparr>remainingAttempts := Some remaining,
                            canRequestNew := Some (canRequestOTP now u1),
                            retryAfter := (if remaining = 0 then Some (now + 15 * 60 * 1000) else None)\<rparr>,
                         st1))
                     else
                       (case generateTokens (uid u1) of
                          (access, refresh) \<Rightarrow>
                            (let u2 = u1\<lparr>user.refreshToken := Some refresh\<rparr> in
                             ((json 200 True (Some (verify_text (message verificationResult))))
                                \<lparr>accessToken := Some access,
                                 refreshToken := Some refresh,
                                 user_json := Some u2,
                                 isPhoneVerified := Some True\<rparr>,
                              st1\<lparr>users := save u2 (users st1)\<rparr>)))))))"

section \<open>Auxiliary predicates\<close>

text \<open>
  The state of an entry after \<open>n\<close> calls in its window: either it counts them and is
  not blocked, or it is blocked and at least ten calls were made.
\<close>

definition in_window :: "attempt \<Rightarrow> nat \<Rightarrow> bool" where
  "in_window a n =
     ((\<not> blocked a \<and> attempt.count a = int n \<and> 1 \<le> n \<and> n \<le> 10)
      \<or> (blocked a \<and> 10 \<le> n))"

text \<open>The invariant of a stored entry.\<close>

definition entry_ok :: "attempt \<Rightarrow> bool" where
  "entry_ok a =
     (1 \<le> attempt.count a
      \<and> (if blocked a then attempt.count a = 11 else attempt.count a \<le> 10))"

definition entries_ok :: "attempts \<Rightarrow> bool" where
  "entries_ok m = (\<forall>k a. m k = Some a \<longrightarrow> entry_ok a)"

text \<open>The characters after the optional leading \<open>+\<close>.\<close>

definition after_plus :: "string \<Rightarrow> string" where
  "after_plus s = (case s of [] \<Rightarrow> [] | c # cs \<Rightarrow> if c = CHR ''+'' then cs else s)"

definition has_plus :: "string \<Rightarrow> bool" where
  "has_plus s = (case s of [] \<Rightarrow> False | c # cs \<Rightarrow> c = CHR ''+'')"

text \<open>The first character is one of \<open>1\<close> to \<open>9\<close>.\<close>

definition leading_nonzero :: "string \<Rightarrow> bool" where
  "leading_nonzero s = (case s of [] \<Rightarrow> False | c # cs \<Rightarrow> c \<in> set ''123456789'')"

text \<open>A response carries \<open>otp\<close>, if it is a 200, exactly in development mode.\<close>

definition otp_field_ok :: "env \<Rightarrow> response \<Rightarrow> bool" where
  "otp_field_ok e r = (status r = 200 \<longrightarrow> (otp r \<noteq> None) = (NODE_ENV e = ''development''))"

text \<open>The outcome of \<open>sendSMS\<close>, which does not depend on the text sent.\<close>

definition sms_result :: "env \<Rightarrow> string \<Rightarrow> string + unit" where
  "sms_result e p = sendSMS e p []"

section \<open>Properties of the rate limiter\<close>

lemma checkLimit_calls_Cons:
  "fst (checkLimit_calls k (t # ts) m) =
     fst (checkLimit t k m) # fst (checkLimit_calls k ts (snd (checkLimit t k m)))"
  by (simp split: prod.splits)

lemma checkLimit_in_window:
  assumes "m k = Some a" and "t - timestamp a \<le> cleanupInterval" and "in_window a n"
  shows "\<exists>a'. snd (checkLimit t k m) k = Some a' \<and> timestamp a' = timestamp a \<and>
              in_window a' (Suc n) \<and> allowed (fst (checkLimit t k m)) = (n < 10)"
  using assms by (auto simp: checkLimit_def in_window_def Let_def)

lemma checkLimit_fresh:
  assumes "case m k of None \<Rightarrow> True | Some a \<Rightarrow> t - timestamp a > cleanupInterval"
  shows "allowed (fst (checkLimit t k m)) \<and>
         snd (checkLimit t k m) k = Some \<lparr>attempt.count = 1, timestamp = t, blocked = False\<rparr>"
  using assms by (auto simp: checkLimit_def split: option.splits)

lemma calls_from_entry:
  "m k = Some a \<Longrightarrow> timestamp a = t0 \<Longrightarrow> in_window a n \<Longrightarrow>
   \<forall>t\<in>set ts. t - t0 \<le> cleanupInterval \<Longrightarrow>
   map allowed (fst (checkLimit_calls k ts m)) = map (\<lambda>i. n + i < 10) [0..<length ts]"
proof (induction ts arbitrary: m a n)
  case Nil
  then show ?case by simp
next
  case (Cons t ts)
  let ?m' = "snd (checkLimit t k m)"
  have "t - timestamp a \<le> cleanupInterval" using Cons.prems by simp
  with checkLimit_in_window [where m = m and k = k and a = a and t = t and n = n]
    Cons.prems(1) Cons.prems(3)
  obtain a' where a': "?m' k = Some a'" "timestamp a' = t0" "in_window a' (Suc n)"
      "allowed (fst (checkLimit t k m)) = (n < 10)"
    using Cons.prems(2) by auto
  have "map allowed (fst (checkLimit_calls k ts ?m')) = map (\<lambda>i. Suc n + i < 10) [0..<length ts]"
    using Cons.IH [where m = ?m' and a = a' and n = "Suc n"] a'(1) a'(2) a'(3) Cons.prems(4)
    by simp
  then show ?case using a'(4)
    by (simp add: checkLimit_calls_Cons map_upt_Suc del: upt_Suc checkLimit_calls.simps)
qed

lemma first_ten:
  assumes "case m k of None \<Rightarrow> True | Some a \<Rightarrow> t0 - timestamp a > cleanupInterval"
    and "\<forall>t\<in>set ts. t - t0 \<le> cleanupInterval"
  shows "map allowed (fst (checkLimit_calls k (t0 # ts) m)) = map (\<lambda>i. i < 10) [0..<Suc (length ts)]"
proof -
  let ?m' = "snd (checkLimit t0 k m)"
  let ?a' = "\<lparr>attempt.count = 1, timestamp = t0, blocked = False\<rparr>"
  from checkLimit_fresh [where m = m and k = k and t = t0] assms(1)
  have a': "allowed (fst (checkLimit t0 k m))" "?m' k = Some ?a'" by auto
  have "in_window ?a' 1" by (simp add: in_window_def)
  with calls_from_entry [where m = ?m' and k = k and a = ?a' and ?t0.0 = t0 and n = 1 and ts = ts]
    a'(2) assms(2)
  have "map allowed (fst (checkLimit_calls k ts ?m')) = map (\<lambda>i. 1 + i < 10) [0..<length ts]"
    by simp
  then show ?thesis using a'(1)
    by (simp add: checkLimit_calls_Cons map_upt_Suc del: upt_Suc checkLimit_calls.simps)
qed

lemma checkLimit_other: "k \<noteq> key \<Longrightarrow> snd (checkLimit now key m) k = m k"
  by (simp add: checkLimit_def Let_def split: option.splits)

lemma checkLimit_same_ok:
  "(\<forall>a. m key = Some a \<longrightarrow> entry_ok a) \<Longrightarrow> snd (checkLimit now key m) key = Some a' \<Longrightarrow> entry_ok a'"
  by (auto simp: checkLimit_def entry_ok_def Let_def split: option.splits if_splits)

lemma entries_ok_checkLimit:
  assumes "entries_ok m" shows "entries_ok (snd (checkLimit now key m))"
  unfolding entries_ok_def
proof (intro allI impI)
  fix k a assume h: "snd (checkLimit now key m) k = Some a"
  show "entry_ok a"
  proof (cases "k = key")
    case True
    have "\<forall>a. m key = Some a \<longrightarrow> entry_ok a" using assms by (simp add: entries_ok_def)
    then show ?thesis using h True checkLimit_same_ok by blast
  next
    case False
    then show ?thesis using h assms by (simp add: checkLimit_other entries_ok_def)
  qed
qed

lemma entries_ok_sweep: "entries_ok m \<Longrightarrow> entries_ok (sweep now m)"
  unfolding entries_ok_def sweep_def
  by (simp split: option.splits if_splits)

lemma entries_ok_step:
  assumes "entries_ok m" shows "entries_ok (limiter_step e m)"
proof (cases e)
  case (CheckLimit now key)
  then show ?thesis using assms entries_ok_checkLimit by simp
next
  case (Sweep now)
  then show ?thesis using assms entries_ok_sweep by simp
next
  case Cleanup
  then show ?thesis by (simp add: cleanup_def entries_ok_def)
qed

lemma entries_ok_run: "entries_ok m \<Longrightarrow> entries_ok (limiter_run es m)"
  by (induction es arbitrary: m) (simp_all add: entries_ok_step)

lemma checkLimit_blocked:
  "m k = Some a \<Longrightarrow> blocked a \<Longrightarrow> now - timestamp a \<le> cleanupInterval \<Longrightarrow>
   \<not> allowed (fst (checkLimit now k m)) \<and> snd (checkLimit now k m) = m"
  by (simp add: checkLimit_def Let_def)

text \<open>
  Claim C1. A sequence of \<open>checkLimit\<close> calls for one phone number that starts with no
  entry, or with an entry whose window has elapsed, and whose later calls all fall within
  one hour of the first, is allowed for exactly its first 10 calls and refused from the
  11th on. And whenever more than one hour has elapsed since the entry's timestamp, the
  next call is allowed and leaves the entry with \<open>count = 1\<close>, \<open>timestamp = now\<close> and
  \<open>blocked = false\<close>.
\<close>

theorem checkLimit_first_ten_per_window:
  "((case m k of None \<Rightarrow> True | Some a \<Rightarrow> t0 - timestamp a > cleanupInterval) \<and>
    (\<forall>t\<in>set ts. t - t0 \<le> cleanupInterval) \<longrightarrow>
      map allowed (fst (checkLimit_calls k (t0 # ts) m)) = map (\<lambda>i. i < 10) [0..<Suc (length ts)])
   \<and> (m k = Some a \<and> now - timestamp a > cleanupInterval \<longrightarrow>
        allowed (fst (checkLimit now k m)) \<and>
        snd (checkLimit now k m) k = Some \<lparr>attempt.count = 1, timestamp = now, blocked = False\<rparr>)"
  using first_ten [where m = m and k = k and ?t0.0 = t0 and ts = ts]
    checkLimit_fresh [where m = m and k = k and t = now] by auto

theorem checkLimit_first_ten_per_window_witness:
  "map allowed (fst (checkLimit_calls ''+15551234567'' [0, 1, 2, 3, 4, 5, 6, 7, 8, 9, 10, 3600000] Map.empty))
     = [True, True, True, True, True, True, True, True, True, True, False, False]
   \<and> allowed (fst (checkLimit 3600001 ''+15551234567''
        [''+15551234567'' \<mapsto> \<lparr>attempt.count = 11, timestamp = 0, blocked = True\<rparr>]))
   \<and> snd (checkLimit 3600001 ''+15551234567''
        [''+15551234567'' \<mapsto> \<lparr>attempt.count = 11, timestamp = 0, blocked = True\<rparr>]) ''+15551234567''
       = Some \<lparr>attempt.count = 1, timestamp = 3600001, blocked = False\<rparr>"
  using checkLimit_first_ten_per_window [where m = Map.empty and k = "''+15551234567''" and ?t0.0 = 0
      and ts = "[1, 2, 3, 4, 5, 6, 7, 8, 9, 10, 3600000]"]
    checkLimit_first_ten_per_window [where
      m = "[''+15551234567'' \<mapsto> \<lparr>attempt.count = 11, timestamp = 0, blocked = True\<rparr>]"
      and k = "''+15551234567''" and ?t0.0 = 0 and ts = "[]"
      and a = "\<lparr>attempt.count = 11, timestamp = 0, blocked = True\<rparr>" and now = 3600001]
  by (simp add: cleanupInterval_def upt_rec)

text \<open>
  Claim C9. Whatever calls, sweeps and shutdowns the limiter has gone through since it
  was empty, every stored entry has a count between 1 and 11. A call on a blocked entry
  within its window is refused and changes nothing, and a call that creates an entry or
  finds its window elapsed leaves \<open>count = 1\<close> and \<open>blocked = false\<close>.
\<close>

theorem limiter_count_at_most_11:
  "(limiter_run es Map.empty k = Some a \<longrightarrow> 1 \<le> attempt.count a \<and> attempt.count a \<le> 11)
   \<and> (m k = Some b \<and> blocked b \<and> now - timestamp b \<le> cleanupInterval \<longrightarrow>
        \<not> allowed (fst (checkLimit now k m)) \<and> snd (checkLimit now k m) = m)
   \<and> ((case m k of None \<Rightarrow> True | Some b \<Rightarrow> now - timestamp b > cleanupInterval) \<longrightarrow>
        snd (checkLimit now k m) k = Some \<lparr>attempt.count = 1, timestamp = now, blocked = False\<rparr>)"
proof -
  have "entries_ok (limiter_run es Map.empty)"
    by (rule entries_ok_run) (simp add: entries_ok_def)
  then have "limiter_run es Map.empty k = Some a \<longrightarrow> 1 \<le> attempt.count a \<and> attempt.count a \<le> 11"
    unfolding entries_ok_def entry_ok_def by (cases "blocked a") fastforce+
  then show ?thesis
    using checkLimit_blocked [where m = m and k = k and a = b and now = now]
      checkLimit_fresh [where m = m and k = k and t = now] by auto
qed

theorem limiter_count_at_most_11_witness:
  "limiter_run (map (\<lambda>t. CheckLimit t ''+15551234567'') [0, 1, 2, 3, 4, 5, 6, 7, 8, 9, 10, 11])
       Map.empty ''+15551234567''
     = Some \<lparr>attempt.count = 11, timestamp = 0, blocked = True\<rparr>
   \<and> \<not> allowed (fst (checkLimit 12 ''+15551234567''
          [''+15551234567'' \<mapsto> \<lparr>attempt.count = 11, timestamp = 0, blocked = True\<rparr>]))
   \<and> snd (checkLimit 12 ''+15551234567''
          [''+15551234567'' \<mapsto> \<lparr>attempt.count = 11, timestamp = 0, blocked = True\<rparr>])
       = [''+15551234567'' \<mapsto> \<lparr>attempt.count = 11, timestamp = 0, blocked = True\<rparr>]
   \<and> snd (checkLimit 5 ''+15551234567'' Map.empty) ''+15551234567''
       = Some \<lparr>attempt.count = 1, timestamp = 5, blocked = False\<rparr>"
  using limiter_count_at_most_11 [where
      es = "map (\<lambda>t. CheckLimit t ''+15551234567'') [0, 1, 2, 3, 4, 5, 6, 7, 8, 9, 10, 11]"
      and k = "''+15551234567''"
      and a = "\<lparr>attempt.count = 11, timestamp = 0, blocked = True\<rparr>"
      and m = "[''+15551234567'' \<mapsto> \<lparr>attempt.count = 11, timestamp = 0, blocked = True\<rparr>]"
      and b = "\<lparr>attempt.count = 11, timestamp = 0, blocked = True\<rparr>" and now = 12]
    limiter_count_at_most_11 [where m = Map.empty and k = "''+15551234567''" and now = 5]
  by (simp add: checkLimit_def cleanupInterval_def)

section \<open>Properties of the phone number validation\<close>

lemma isDigit_not_plus: "isDigit c \<Longrightarrow> c \<noteq> CHR ''+''"
  by (auto simp: isDigit_def)

lemma filter_isDigit_head: "filter isDigit xs = y # ys \<Longrightarrow> isDigit y"
proof -
  assume h: "filter isDigit xs = y # ys"
  have "list_all isDigit (filter isDigit xs)" by (simp add: list_all_iff)
  then show "isDigit y" using h by simp
qed

lemma after_plus_digits: "list_all isDigit s \<Longrightarrow> list_all isDigit (after_plus s)"
  by (cases s) (simp_all add: after_plus_def)

lemma cleanNumber_digits: "list_all isDigit (after_plus (cleanNumber p))"
proof (cases p)
  case Nil
  then show ?thesis by (simp add: cleanNumber_def after_plus_def)
next
  case (Cons c cs)
  show ?thesis
  proof (cases "c = CHR ''+''")
    case True
    then show ?thesis using Cons by (simp add: cleanNumber_def after_plus_def list_all_iff)
  next
    case False
    then have "cleanNumber p = filter isDigit p" using Cons by (simp add: cleanNumber_def)
    moreover have "list_all isDigit (after_plus (filter isDigit p))"
      by (rule after_plus_digits) (simp add: list_all_iff)
    ultimately show ?thesis by simp
  qed
qed

lemma cleanNumber_idem: "cleanNumber (cleanNumber p) = cleanNumber p"
proof (cases p)
  case Nil
  then show ?thesis by (simp add: cleanNumber_def)
next
  case (Cons c cs)
  show ?thesis
  proof (cases "c = CHR ''+''")
    case True
    then show ?thesis using Cons by (simp add: cleanNumber_def)
  next
    case False
    then have e: "cleanNumber p = filter isDigit p" using Cons by (simp add: cleanNumber_def)
    show ?thesis
    proof (cases "filter isDigit p")
      case Nil
      then show ?thesis using e by (simp add: cleanNumber_def)
    next
      case (Cons y ys)
      then have "y \<noteq> CHR ''+''" using filter_isDigit_head isDigit_not_plus by blast
      moreover have "filter isDigit (filter isDigit p) = filter isDigit p" by simp
      then have "filter isDigit (y # ys) = y # ys" using Cons by simp
      ultimately show ?thesis using e Cons by (simp add: cleanNumber_def)
    qed
  qed
qed

lemma validatePhoneNumber_Inr: "validatePhoneNumber p = Inr c \<Longrightarrow> c = cleanNumber p"
  by (auto simp: validatePhoneNumber_def Let_def split: if_splits)

lemma validatePhoneNumber_clean: "validatePhoneNumber (cleanNumber p) = validatePhoneNumber p"
  by (simp add: validatePhoneNumber_def cleanNumber_idem)

lemma validatePhoneNumber_iff:
  "validatePhoneNumber p = Inr c \<longleftrightarrow>
     c = cleanNumber p \<and> matches_international c \<and> 8 \<le> length c \<and> length c \<le> 15"
  by (auto simp: validatePhoneNumber_def Let_def)

lemma validatePhoneNumber_cases:
  "validatePhoneNumber p = Inr (cleanNumber p) \<or> (\<exists>m. validatePhoneNumber p = Inl m)"
  by (simp add: validatePhoneNumber_def Let_def)

lemma matches_no_plus:
  assumes "\<not> has_plus d" and "list_all isDigit d"
  shows "matches_international d \<longleftrightarrow> leading_nonzero d \<and> 2 \<le> length d \<and> length d \<le> 15"
proof (cases d)
  case Nil
  then show ?thesis by (simp add: matches_international_def leading_nonzero_def)
next
  case (Cons x xs)
  then have "x \<noteq> CHR ''+''" using assms(1) by (simp add: has_plus_def)
  then show ?thesis using Cons assms(2)
    by (auto simp: matches_international_def leading_nonzero_def)
qed

lemma matches_plus:
  assumes "list_all isDigit d"
  shows "matches_international (CHR ''+'' # d) \<longleftrightarrow> leading_nonzero d \<and> 2 \<le> length d \<and> length d \<le> 15"
proof (cases d)
  case Nil
  then show ?thesis by (simp add: matches_international_def leading_nonzero_def)
next
  case (Cons x xs)
  then show ?thesis using assms
    by (auto simp: matches_international_def leading_nonzero_def)
qed

lemma cleaned_number_acceptance:
  "list_all isDigit (after_plus (cleanNumber p))
   \<and> (validatePhoneNumber p = Inr (cleanNumber p) \<or> (\<exists>m. validatePhoneNumber p = Inl m))
   \<and> (cleanNumber p = d \<and> \<not> has_plus d \<longrightarrow>
        (validatePhoneNumber p = Inr d \<longleftrightarrow> leading_nonzero d \<and> 8 \<le> length d \<and> length d \<le> 15))
   \<and> (cleanNumber p = CHR ''+'' # d \<longrightarrow>
        (leading_nonzero d \<and> 8 \<le> length d \<and> length d \<le> 14 \<longrightarrow>
           validatePhoneNumber p = Inr (CHR ''+'' # d))
        \<and> (validatePhoneNumber p = Inr (CHR ''+'' # d) \<longrightarrow>
             leading_nonzero d \<and> 7 \<le> length d \<and> length d \<le> 15))"
proof (intro conjI impI)
  show "list_all isDigit (after_plus (cleanNumber p))" by (rule cleanNumber_digits)
  show "validatePhoneNumber p = Inr (cleanNumber p) \<or> (\<exists>m. validatePhoneNumber p = Inl m)"
    by (rule validatePhoneNumber_cases)
next
  assume h: "cleanNumber p = d \<and> \<not> has_plus d"
  then have "after_plus d = d" by (cases d) (simp_all add: after_plus_def has_plus_def)
  then have "list_all isDigit d" using cleanNumber_digits [of p] h by simp
  then show "validatePhoneNumber p = Inr d \<longleftrightarrow> leading_nonzero d \<and> 8 \<le> length d \<and> length d \<le> 15"
    using h matches_no_plus [of d] validatePhoneNumber_iff [of p d] by auto
next
  assume h: "cleanNumber p = CHR ''+'' # d"
  then have dg: "list_all isDigit d" using cleanNumber_digits [of p] by (simp add: after_plus_def)
  {
    assume "leading_nonzero d \<and> 8 \<le> length d \<and> length d \<le> 14"
    then show "validatePhoneNumber p = Inr (CHR ''+'' # d)"
      using h matches_plus [OF dg] validatePhoneNumber_iff [of p "CHR ''+'' # d"] by auto
  }
  {
    assume "validatePhoneNumber p = Inr (CHR ''+'' # d)"
    then show "leading_nonzero d" "7 \<le> length d" "length d \<le> 15"
      using h matches_plus [OF dg] validatePhoneNumber_iff [of p "CHR ''+'' # d"] by auto
  }
qed

lemma sendSMS_invalid_format:
  "validatePhoneNumber p = Inl m \<Longrightarrow> \<exists>err. sendSMS e p t = Inl err"
  by (simp add: sendSMS_def sendSMS_body_def)

lemma sendOTP_catch_failure: "\<not> success (sendOTP_catch e err)"
  by (simp add: sendOTP_catch_def server_error_def json_def)

lemma resendOTP_catch_failure: "\<not> success (resendOTP_catch e err)"
  by (simp add: resendOTP_catch_def server_error_def json_def)

lemma sendOTP_invalid_format:
  assumes "validatePhoneNumber p = Inl m" and "p \<noteq> []"
    and "allowed (fst (checkLimit now p (limiter st)))"
    and "findOne p (users st) = Some u" and "isActive u" and "canRequestOTP now u"
    and "NODE_ENV e \<noteq> ''development''"
  shows "\<not> success (fst (sendOTP e now g (Some p) st))
     \<and> limiter (snd (sendOTP e now g (Some p) st)) = snd (checkLimit now p (limiter st))
     \<and> users (snd (sendOTP e now g (Some p) st))
         = save (revert_otp (snd (generateOTP now g u))) (save (snd (generateOTP now g u)) (users st))"
proof -
  obtain r lim where c: "checkLimit now p (limiter st) = (r, lim)"
    by (cases "checkLimit now p (limiter st)")
  obtain g' u1 where gen: "generateOTP now g u = (g', u1)"
    by (cases "generateOTP now g u")
  obtain err where err: "sendSMS e p (''Your verification code is: '' @ g'
        @ ''. Valid for 60 seconds. Do not share this code with anyone.'') = Inl err"
    using sendSMS_invalid_format [OF assms(1)] by blast
  show ?thesis using assms c gen err
    by (simp add: sendOTP_def Let_def sendOTP_catch_failure)
qed

lemma resendOTP_invalid_format:
  assumes "validatePhoneNumber p = Inl m"
    and "allowed (fst (checkLimit now p (limiter st)))"
    and "findOne p (users st) = Some u"
    and "\<not> (case expiresAt (phoneOTP u) of None \<Rightarrow> False | Some ex \<Rightarrow> ex > now)"
    and "canRequestOTP now u" and "NODE_ENV e \<noteq> ''development''"
  shows "\<not> success (fst (resendOTP e now g p st))
     \<and> limiter (snd (resendOTP e now g p st)) = snd (checkLimit now p (limiter st))
     \<and> users (snd (resendOTP e now g p st))
         = save (revert_otp (snd (generateOTP now g u))) (save (snd (generateOTP now g u)) (users st))"
proof -
  obtain r lim where c: "checkLimit now p (limiter st) = (r, lim)"
    by (cases "checkLimit now p (limiter st)")
  obtain g' u1 where gen: "generateOTP now g u = (g', u1)"
    by (cases "generateOTP now g u")
  obtain err where err: "sendSMS e p (''Your new verification code is: '' @ g'
        @ ''. Valid for 60 seconds. Do not share this code with anyone.'') = Inl err"
    using sendSMS_invalid_format [OF assms(1)] by blast
  show ?thesis using assms c gen err
    by (simp add: resendOTP_def Let_def resendOTP_catch_failure)
qed

text \<open>
  Claim C4, as amended. Cleaning leaves an optional leading \<open>+\<close> followed by digits
  only, and \<open>validatePhoneNumber\<close> either returns the cleaned number or throws. A cleaned
  number without a leading \<open>+\<close> is accepted exactly when it starts with a digit from 1
  to 9 and has 8 to 15 digits. A cleaned number with a leading \<open>+\<close> is accepted when the
  digits after it start with 1 to 9 and number 8 to 14, and is accepted only if they
  start with 1 to 9 and number between 7 and 15.

  The rejection does not come before every state change: \<open>sendOTP\<close> and \<open>resendOTP\<close>
  reach \<open>validatePhoneNumber\<close> only inside \<open>sendSMS\<close>. When the rate limiter allows
  the request and the user passes the handler's checks, an invalid format outside
  development is answered with \<open>success: false\<close> after the rate limiter has counted the
  request and the generated OTP was saved; the handler then saves the user again with
  \<open>code\<close> and \<open>expiresAt\<close> cleared and the quota count taken back.
\<close>

theorem validatePhoneNumber_accepts:
  "list_all isDigit (after_plus (cleanNumber p))
   \<and> (validatePhoneNumber p = Inr (cleanNumber p) \<or> (\<exists>m. validatePhoneNumber p = Inl m))
   \<and> (cleanNumber p = d \<and> \<not> has_plus d \<longrightarrow>
        (validatePhoneNumber p = Inr d \<longleftrightarrow> leading_nonzero d \<and> 8 \<le> length d \<and> length d \<le> 15))
   \<and> (cleanNumber p = CHR ''+'' # d \<longrightarrow>
        (leading_nonzero d \<and> 8 \<le> length d \<and> length d \<le> 14 \<longrightarrow>
           validatePhoneNumber p = Inr (CHR ''+'' # d))
        \<and> (validatePhoneNumber p = Inr (CHR ''+'' # d) \<longrightarrow>
             leading_nonzero d \<and> 7 \<le> length d \<and> length d \<le> 15))
   \<and> (validatePhoneNumber p = Inl m \<and> p \<noteq> []
       \<and> allowed (fst (checkLimit now p (limiter st)))
       \<and> findOne p (users st) = Some u \<and> isActive u \<and> canRequestOTP now u
       \<and> NODE_ENV e \<noteq> ''development'' \<longrightarrow>
        \<not> success (fst (sendOTP e now g (Some p) st))
        \<and> limiter (snd (sendOTP e now g (Some p) st)) = snd (checkLimit now p (limiter st))
        \<and> users (snd (sendOTP e now g (Some p) st))
            = save (revert_otp (snd (generateOTP now g u)))
                (save (snd (generateOTP now g u)) (users st)))
   \<and> (validatePhoneNumber p = Inl m
       \<and> allowed (fst (checkLimit now p (limiter st)))
       \<and> findOne p (users st) = Some u
       \<and> \<not> (case expiresAt (phoneOTP u) of None \<Rightarrow> False | Some ex \<Rightarrow> ex > now)
       \<and> canRequestOTP now u \<and> NODE_ENV e \<noteq> ''development'' \<longrightarrow>
        \<not> success (fst (resendOTP e now g p st))
        \<and> limiter (snd (resendOTP e now g p st)) = snd (checkLimit now p (limiter st))
        \<and> users (snd (resendOTP e now g p st))
            = save (revert_otp (snd (generateOTP now g u)))
                (save (snd (generateOTP now g u)) (users st)))"
  using cleaned_number_acceptance [of p d]
    sendOTP_invalid_format [of p m now st u e g]
    resendOTP_invalid_format [of p m now st u e g]
  by blast

theorem validatePhoneNumber_accepts_witness:
  "cleanNumber ''15551234567'' = ''15551234567'' \<and> \<not> has_plus ''15551234567''
   \<and> validatePhoneNumber ''15551234567'' = Inr ''15551234567''
   \<and> cleanNumber ''+1 (555) 123-4567'' = ''+15551234567''
   \<and> leading_nonzero ''15551234567'' \<and> length ''15551234567'' = 11
   \<and> validatePhoneNumber ''+1 (555) 123-4567'' = Inr ''+15551234567''
   \<and> validatePhoneNumber ''012345678''
       = Inl ''Invalid phone number format. Please use international format (e.g., +1234567890)''
   \<and> allowed (fst (checkLimit 1000 ''012345678'' Map.empty))
   \<and> findOne ''012345678''
        [\<lparr>uid = 1, phoneNumber = ''012345678'', isActive = True,
          phoneOTP = \<lparr>code = None, expiresAt = None, attempts = 0\<rparr>,
          otpRequestCount = \<lparr>otp_request_count.count = 0, lastRequest = 0\<rparr>,
          user.refreshToken = None\<rparr>]
       = Some \<lparr>uid = 1, phoneNumber = ''012345678'', isActive = True,
          phoneOTP = \<lparr>code = None, expiresAt = None, attempts = 0\<rparr>,
          otpRequestCount = \<lparr>otp_request_count.count = 0, lastRequest = 0\<rparr>,
          user.refreshToken = None\<rparr>
   \<and> canRequestOTP 1000
        \<lparr>uid = 1, phoneNumber = ''012345678'', isActive = True,
          phoneOTP = \<lparr>code = None, expiresAt = None, attempts = 0\<rparr>,
          otpRequestCount = \<lparr>otp_request_count.count = 0, lastRequest = 0\<rparr>,
          user.refreshToken = None\<rparr>
   \<and> \<not> success (fst (sendOTP \<lparr>NODE_ENV = ''production'', messageBirdClient = None, twilioClient = Some Delivered\<rparr>
        1000 ''042917'' (Some ''012345678'')
        \<lparr>limiter = Map.empty,
        users = [\<lparr>uid = 1, phoneNumber = ''012345678'', isActive = True,
          phoneOTP = \<lparr>code = None, expiresAt = None, attempts = 0\<rparr>,
          otpRequestCount = \<lparr>otp_request_count.count = 0, lastRequest = 0\<rparr>,
          user.refreshToken = None\<rparr>]\<rparr>))
   \<and> users (snd (sendOTP \<lparr>NODE_ENV = ''production'', messageBirdClient = None, twilioClient = Some Delivered\<rparr>
        1000 ''042917'' (Some ''012345678'')
        \<lparr>limiter = Map.empty,
        users = [\<lparr>uid = 1, phoneNumber = ''012345678'', isActive = True,
          phoneOTP = \<lparr>code = None, expiresAt = None, attempts = 0\<rparr>,
          otpRequestCount = \<lparr>otp_request_count.count = 0, lastRequest = 0\<rparr>,
          user.refreshToken = None\<rparr>]\<rparr>))
       = [\<lparr>uid = 1, phoneNumber = ''012345678'', isActive = True,
          phoneOTP = \<lparr>code = None, expiresAt = None, attempts = 0\<rparr>,
          otpRequestCount = \<lparr>otp_request_count.count = 0, lastRequest = 1000\<rparr>,
          user.refreshToken = None\<rparr>]
   \<and> \<not> success (fst (resendOTP \<lparr>NODE_ENV = ''production'', messageBirdClient = None, twilioClient = Some Delivered\<rparr>
        1000 ''042917'' ''012345678''
        \<lparr>limiter = Map.empty,
        users = [\<lparr>uid = 1, phoneNumber = ''012345678'', isActive = True,
          phoneOTP = \<lparr>code = None, expiresAt = None, attempts = 0\<rparr>,
          otpRequestCount = \<lparr>otp_request_count.count = 0, lastRequest = 0\<rparr>,
          user.refreshToken = None\<rparr>]\<rparr>))
   \<and> users (snd (resendOTP \<lparr>NODE_ENV = ''production'', messageBirdClient = None, twilioClient = Some Delivered\<rparr>
        1000 ''042917'' ''012345678''
        \<lparr>limiter = Map.empty,
        users = [\<lparr>uid = 1, phoneNumber = ''012345678'', isActive = True,
          phoneOTP = \<lparr>code = None, expiresAt = None, attempts = 0\<rparr>,
          otpRequestCount = \<lparr>otp_request_count.count = 0, lastRequest = 0\<rparr>,
          user.refreshToken = None\<rparr>]\<rparr>))
       = [\<lparr>uid = 1, phoneNumber = ''012345678'', isActive = True,
          phoneOTP = \<lparr>code = None, expiresAt = None, attempts = 0\<rparr>,
          otpRequestCount = \<lparr>otp_request_count.count = 0, lastRequest = 1000\<rparr>,
          user.refreshToken = None\<rparr>]"
proof -
  have f: "cleanNumber ''15551234567'' = ''15551234567'' \<and> \<not> has_plus ''15551234567''
     \<and> validatePhoneNumber ''15551234567'' = Inr ''15551234567''
     \<and> cleanNumber ''+1 (555) 123-4567'' = ''+15551234567''
     \<and> leading_nonzero ''15551234567'' \<and> length ''15551234567'' = 11
     \<and> validatePhoneNumber ''+1 (555) 123-4567'' = Inr ''+15551234567''"
    using validatePhoneNumber_accepts [of "''15551234567''" "''15551234567''"]
      validatePhoneNumber_accepts [of "''+1 (555) 123-4567''" "''15551234567''"]
    by (simp add: cleanNumber_def has_plus_def leading_nonzero_def isDigit_def)
  have h1: "validatePhoneNumber ''012345678''
       = Inl ''Invalid phone number format. Please use international format (e.g., +1234567890)''"
    by code_simp
  have h2: "allowed (fst (checkLimit 1000 ''012345678'' (limiter \<lparr>limiter = Map.empty,
        users = [\<lparr>uid = 1, phoneNumber = ''012345678'', isActive = True,
          phoneOTP = \<lparr>code = None, expiresAt = None, attempts = 0\<rparr>,
          otpRequestCount = \<lparr>otp_request_count.count = 0, lastRequest = 0\<rparr>,
          user.refreshToken = None\<rparr>]\<rparr>)))"
    by code_simp
  have h3: "findOne ''012345678'' (users \<lparr>limiter = Map.empty,
        users = [\<lparr>uid = 1, phoneNumber = ''012345678'', isActive = True,
          phoneOTP = \<lparr>code = None, expiresAt = None, attempts = 0\<rparr>,
          otpRequestCount = \<lparr>otp_request_count.count = 0, lastRequest = 0\<rparr>,
          user.refreshToken = None\<rparr>]\<rparr>)
       = Some \<lparr>uid = 1, phoneNumber = ''012345678'', isActive = True,
          phoneOTP = \<lparr>code = None, expiresAt = None, attempts = 0\<rparr>,
          otpRequestCount = \<lparr>otp_request_count.count = 0, lastRequest = 0\<rparr>,
          user.refreshToken = None\<rparr>"
    by code_simp
  have h4: "canRequestOTP 1000
        \<lparr>uid = 1, phoneNumber = ''012345678'', isActive = True,
          phoneOTP = \<lparr>code = None, expiresAt = None, attempts = 0\<rparr>,
          otpRequestCount = \<lparr>otp_request_count.count = 0, lastRequest = 0\<rparr>,
          user.refreshToken = None\<rparr>"
    by code_simp
  have h5: "isActive \<lparr>uid = 1, phoneNumber = ''012345678'', isActive = True,
          phoneOTP = \<lparr>code = None, expiresAt = None, attempts = 0\<rparr>,
          otpRequestCount = \<lparr>otp_request_count.count = 0, lastRequest = 0\<rparr>,
          user.refreshToken = None\<rparr>"
    by simp
  have h6: "\<not> (case expiresAt (phoneOTP \<lparr>uid = 1, phoneNumber = ''012345678'', isActive = True,
          phoneOTP = \<lparr>code = None, expiresAt = None, attempts = 0\<rparr>,
          otpRequestCount = \<lparr>otp_request_count.count = 0, lastRequest = 0\<rparr>,
          user.refreshToken = None\<rparr>) of None \<Rightarrow> False | Some ex \<Rightarrow> ex > 1000)"
    by simp
  have h7: "NODE_ENV \<lparr>NODE_ENV = ''production'', messageBirdClient = None, twilioClient = Some Delivered\<rparr> \<noteq> ''development''"
    by simp
  have h8: "''012345678'' \<noteq> []"
    by simp
  have v: "save (revert_otp (snd (generateOTP 1000 ''042917''
        \<lparr>uid = 1, phoneNumber = ''012345678'', isActive = True,
          phoneOTP = \<lparr>code = None, expiresAt = None, attempts = 0\<rparr>,
          otpRequestCount = \<lparr>otp_request_count.count = 0, lastRequest = 0\<rparr>,
          user.refreshToken = None\<rparr>)))
      (save (snd (generateOTP 1000 ''042917''
        \<lparr>uid = 1, phoneNumber = ''012345678'', isActive = True,
          phoneOTP = \<lparr>code = None, expiresAt = None, attempts = 0\<rparr>,
          otpRequestCount = \<lparr>otp_request_count.count = 0, lastRequest = 0\<rparr>,
          user.refreshToken = None\<rparr>))
        (users \<lparr>limiter = Map.empty,
        users = [\<lparr>uid = 1, phoneNumber = ''012345678'', isActive = True,
          phoneOTP = \<lparr>code = None, expiresAt = None, attempts = 0\<rparr>,
          otpRequestCount = \<lparr>otp_request_count.count = 0, lastRequest = 0\<rparr>,
          user.refreshToken = None\<rparr>]\<rparr>))
       = [\<lparr>uid = 1, phoneNumber = ''012345678'', isActive = True,
          phoneOTP = \<lparr>code = None, expiresAt = None, attempts = 0\<rparr>,
          otpRequestCount = \<lparr>otp_request_count.count = 0, lastRequest = 1000\<rparr>,
          user.refreshToken = None\<rparr>]"
    by code_simp
  note T = validatePhoneNumber_accepts [where p = "''012345678''"
      and m = "''Invalid phone number format. Please use international format (e.g., +1234567890)''"
      and now = 1000
      and st = "\<lparr>limiter = Map.empty,
        users = [\<lparr>uid = 1, phoneNumber = ''012345678'', isActive = True,
          phoneOTP = \<lparr>code = None, expiresAt = None, attempts = 0\<rparr>,
          otpRequestCount = \<lparr>otp_request_count.count = 0, lastRequest = 0\<rparr>,
          user.refreshToken = None\<rparr>]\<rparr>"
      and u = "\<lparr>uid = 1, phoneNumber = ''012345678'', isActive = True,
          phoneOTP = \<lparr>code = None, expiresAt = None, attempts = 0\<rparr>,
          otpRequestCount = \<lparr>otp_request_count.count = 0, lastRequest = 0\<rparr>,
          user.refreshToken = None\<rparr>"
      and e = "\<lparr>NODE_ENV = ''production'', messageBirdClient = None, twilioClient = Some Delivered\<rparr>"
      and g = "''042917''"]
  have s: "\<not> success (fst (sendOTP \<lparr>NODE_ENV = ''production'', messageBirdClient = None, twilioClient = Some Delivered\<rparr>
        1000 ''042917'' (Some ''012345678'')
        \<lparr>limiter = Map.empty,
        users = [\<lparr>uid = 1, phoneNumber = ''012345678'', isActive = True,
          phoneOTP = \<lparr>code = None, expiresAt = None, attempts = 0\<rparr>,
          otpRequestCount = \<lparr>otp_request_count.count = 0, lastRequest = 0\<rparr>,
          user.refreshToken = None\<rparr>]\<rparr>))
     \<and> users (snd (sendOTP \<lparr>NODE_ENV = ''production'', messageBirdClient = None, twilioClient = Some Delivered\<rparr>
        1000 ''042917'' (Some ''012345678'')
        \<lparr>limiter = Map.empty,
        users = [\<lparr>uid = 1, phoneNumber = ''012345678'', isActive = True,
          phoneOTP = \<lparr>code = None, expiresAt = None, attempts = 0\<rparr>,
          otpRequestCount = \<lparr>otp_request_count.count = 0, lastRequest = 0\<rparr>,
          user.refreshToken = None\<rparr>]\<rparr>))
       = [\<lparr>uid = 1, phoneNumber = ''012345678'', isActive = True,
          phoneOTP = \<lparr>code = None, expiresAt = None, attempts = 0\<rparr>,
          otpRequestCount = \<lparr>otp_request_count.count = 0, lastRequest = 1000\<rparr>,
          user.refreshToken = None\<rparr>]"
    using T h1 h2 h3 h4 h5 h7 h8 v by simp
  have r: "\<not> success (fst (resendOTP \<lparr>NODE_ENV = ''production'', messageBirdClient = None, twilioClient = Some Delivered\<rparr>
        1000 ''042917'' ''012345678''
        \<lparr>limiter = Map.empty,
        users = [\<lparr>uid = 1, phoneNumber = ''012345678'', isActive = True,
          phoneOTP = \<lparr>code = None, expiresAt = None, attempts = 0\<rparr>,
          otpRequestCount = \<lparr>otp_request_count.count = 0, lastRequest = 0\<rparr>,
          user.refreshToken = None\<rparr>]\<rparr>))
     \<and> users (snd (resendOTP \<lparr>NODE_ENV = ''production'', messageBirdClient = None, twilioClient = Some Delivered\<rparr>
        1000 ''042917'' ''012345678''
        \<lparr>limiter = Map.empty,
        users = [\<lparr>uid = 1, phoneNumber = ''012345678'', isActive = True,
          phoneOTP = \<lparr>code = None, expiresAt = None, attempts = 0\<rparr>,
          otpRequestCount = \<lparr>otp_request_count.count = 0, lastRequest = 0\<rparr>,
          user.refreshToken = None\<rparr>]\<rparr>))
       = [\<lparr>uid = 1, phoneNumber = ''012345678'', isActive = True,
          phoneOTP = \<lparr>code = None, expiresAt = None, attempts = 0\<rparr>,
          otpRequestCount = \<lparr>otp_request_count.count = 0, lastRequest = 1000\<rparr>,
          user.refreshToken = None\<rparr>]"
    using T h1 h2 h3 h4 h6 h7 v by simp
  show ?thesis using f h1 h2 h3 h4 s r by simp
qed

text \<open>
  The claim C4 as first stated fails at \<open>012345678\<close>. The number is unchanged by
  cleaning and is nine digits, yet it is rejected, since the first digit must not be 0.
  And \<open>sendOTP\<close> for a user stored under that number answers 400 only after the state
  changed: the rate limiter holds a new entry for the number, and the saved user has a
  new \<open>lastRequest\<close>.
\<close>

theorem validatePhoneNumber_leading_zero_counterexample:
  "cleanNumber ''012345678'' = ''012345678''
   \<and> list_all isDigit ''012345678'' \<and> length ''012345678'' = 9
   \<and> validatePhoneNumber ''012345678''
       = Inl ''Invalid phone number format. Please use international format (e.g., +1234567890)''
   \<and> status (fst (sendOTP \<lparr>NODE_ENV = ''production'', messageBirdClient = None, twilioClient = Some Delivered\<rparr>
        1000 ''042917'' (Some ''012345678'')
        \<lparr>limiter = Map.empty,
        users = [\<lparr>uid = 1, phoneNumber = ''012345678'', isActive = True,
          phoneOTP = \<lparr>code = None, expiresAt = None, attempts = 0\<rparr>,
          otpRequestCount = \<lparr>otp_request_count.count = 0, lastRequest = 0\<rparr>,
          user.refreshToken = None\<rparr>]\<rparr>)) = 400
   \<and> limiter (snd (sendOTP \<lparr>NODE_ENV = ''production'', messageBirdClient = None, twilioClient = Some Delivered\<rparr>
        1000 ''042917'' (Some ''012345678'')
        \<lparr>limiter = Map.empty,
        users = [\<lparr>uid = 1, phoneNumber = ''012345678'', isActive = True,
          phoneOTP = \<lparr>code = None, expiresAt = None, attempts = 0\<rparr>,
          otpRequestCount = \<lparr>otp_request_count.count = 0, lastRequest = 0\<rparr>,
          user.refreshToken = None\<rparr>]\<rparr>)) ''012345678''
       = Some \<lparr>attempt.count = 1, timestamp = 1000, blocked = False\<rparr>
   \<and> users (snd (sendOTP \<lparr>NODE_ENV = ''production'', messageBirdClient = None, twilioClient = Some Delivered\<rparr>
        1000 ''042917'' (Some ''012345678'')
        \<lparr>limiter = Map.empty,
        users = [\<lparr>uid = 1, phoneNumber = ''012345678'', isActive = True,
          phoneOTP = \<lparr>code = None, expiresAt = None, attempts = 0\<rparr>,
          otpRequestCount = \<lparr>otp_request_count.count = 0, lastRequest = 0\<rparr>,
          user.refreshToken = None\<rparr>]\<rparr>))
       = [\<lparr>uid = 1, phoneNumber = ''012345678'', isActive = True,
          phoneOTP = \<lparr>code = None, expiresAt = None, attempts = 0\<rparr>,
          otpRequestCount = \<lparr>otp_request_count.count = 0, lastRequest = 1000\<rparr>,
          user.refreshToken = None\<rparr>]"
  by code_simp

text \<open>
  Claim C10. \<open>validatePhoneNumber\<close> is idempotent on accepted inputs: validating the
  cleaned number it returned succeeds and returns the same string.
\<close>

theorem validatePhoneNumber_idempotent:
  "validatePhoneNumber p = Inr c \<Longrightarrow> validatePhoneNumber c = Inr c"
  using validatePhoneNumber_Inr [of p c] validatePhoneNumber_clean [of p] by simp

theorem validatePhoneNumber_idempotent_witness:
  "validatePhoneNumber ''+1 (555) 123-4567'' = Inr ''+15551234567''
   \<and> validatePhoneNumber ''+15551234567'' = Inr ''+15551234567''"
  using validatePhoneNumber_idempotent [of "''+1 (555) 123-4567''" "''+15551234567''"]
  by (simp add: validatePhoneNumber_def cleanNumber_def matches_international_def isDigit_def)

section \<open>Properties of OTP verification\<close>

lemma verifyOTP_method_locked:
  "3 \<le> attempts (phoneOTP u) \<Longrightarrow>
   \<not> isValid (fst (verifyOTP_method now c u)) \<and> snd (verifyOTP_method now c u) = u"
  by (simp add: verifyOTP_method_def Let_def split: option.splits)

lemma verifyOTP_calls_locked:
  "3 \<le> attempts (phoneOTP u) \<Longrightarrow>
   list_all (\<lambda>r. \<not> isValid r) (fst (verifyOTP_calls cs u)) \<and> snd (verifyOTP_calls cs u) = u"
proof (induction cs)
  case Nil
  then show ?case by simp
next
  case (Cons x cs)
  obtain now c where x: "x = (now, c)" by (cases x)
  from verifyOTP_method_locked [OF Cons.prems, of now c]
  obtain r where r: "verifyOTP_method now c u = (r, u)" "\<not> isValid r"
    by (cases "verifyOTP_method now c u") auto
  show ?case using Cons.IH [OF Cons.prems] x r by (auto split: prod.splits)
qed

lemma verifyOTP_method_wrong:
  assumes "code (phoneOTP u) = Some c" and "expiresAt (phoneOTP u) = Some ex" and "now < ex"
    and "w \<noteq> c" and "attempts (phoneOTP u) < 3"
  shows "verifyOTP_method now w u =
           (\<lparr>isValid = False, message = IncorrectOtp\<rparr>,
            u\<lparr>phoneOTP := (phoneOTP u)\<lparr>attempts := attempts (phoneOTP u) + 1\<rparr>\<rparr>)"
  using assms by (simp add: verifyOTP_method_def Let_def)

lemma verifyOTP_calls_Cons:
  "fst (verifyOTP_calls ((now, c) # cs) u) =
     fst (verifyOTP_method now c u) # fst (verifyOTP_calls cs (snd (verifyOTP_method now c u)))"
  by (simp split: prod.splits)

lemma three_wrong_then_locked:
  assumes "code (phoneOTP u) = Some c" and "expiresAt (phoneOTP u) = Some ex"
    and "attempts (phoneOTP u) = 0"
    and "w1 \<noteq> c" "w2 \<noteq> c" "w3 \<noteq> c" and "t1 < ex" "t2 < ex" "t3 < ex"
  shows "list_all (\<lambda>r. \<not> isValid r)
           (fst (verifyOTP_calls ((t1, w1) # (t2, w2) # (t3, w3) # cs) u))"
proof -
  let ?u1 = "u\<lparr>phoneOTP := (phoneOTP u)\<lparr>attempts := 1\<rparr>\<rparr>"
  let ?u2 = "u\<lparr>phoneOTP := (phoneOTP u)\<lparr>attempts := 2\<rparr>\<rparr>"
  let ?u3 = "u\<lparr>phoneOTP := (phoneOTP u)\<lparr>attempts := 3\<rparr>\<rparr>"
  let ?bad = "\<lparr>isValid = False, message = IncorrectOtp\<rparr>"
  have s1: "verifyOTP_method t1 w1 u = (?bad, ?u1)"
    using verifyOTP_method_wrong [of u c ex t1 w1] assms by simp
  have s2: "verifyOTP_method t2 w2 ?u1 = (?bad, ?u2)"
    using verifyOTP_method_wrong [of ?u1 c ex t2 w2] assms by simp
  have s3: "verifyOTP_method t3 w3 ?u2 = (?bad, ?u3)"
    using verifyOTP_method_wrong [of ?u2 c ex t3 w3] assms by simp
  have "list_all (\<lambda>r. \<not> isValid r) (fst (verifyOTP_calls cs ?u3))"
    using verifyOTP_calls_locked [of ?u3 cs] by simp
  then show ?thesis using s1 s2 s3 by (simp add: verifyOTP_calls_Cons del: verifyOTP_calls.simps)
qed

lemma otp_format_nonempty: "otp_format s \<Longrightarrow> s \<noteq> []"
  by (auto simp: otp_format_def)

lemma verifyOTP_locked_400:
  assumes "findOne p (users st) = Some u" and "isActive u" and "3 \<le> attempts (phoneOTP u)"
    and "otp_format s" and "p \<noteq> []"
  shows "status (fst (verifyOTP g now (Some p) (Some s) st)) = 400
         \<and> \<not> success (fst (verifyOTP g now (Some p) (Some s) st))"
proof -
  from verifyOTP_method_locked [OF assms(3), of now s]
  obtain r where r: "verifyOTP_method now s u = (r, u)" "\<not> isValid r"
    by (cases "verifyOTP_method now s u") auto
  show ?thesis using assms r otp_format_nonempty [OF assms(4)]
    by (simp add: verifyOTP_def json_def Let_def)
qed

text \<open>
  Claim C2. Once \<open>attempts\<close> has reached 3, every further \<open>verifyOtp\<close> call returns
  \<open>isValid = false\<close> whatever code is submitted, and leaves the user as it is, so the
  lock holds for any number of calls. Three wrong submissions against a fresh, unexpired
  code lock it, whatever is submitted afterwards, the correct code included. The
  \<open>verifyOTP\<close> handler answers such a locked user with HTTP 400. A newly generated OTP
  starts again from \<open>attempts = 0\<close>.
\<close>

theorem verifyOTP_locked_after_three_attempts:
  "(3 \<le> attempts (phoneOTP u) \<longrightarrow>
      list_all (\<lambda>r. \<not> isValid r) (fst (verifyOTP_calls cs u)) \<and> snd (verifyOTP_calls cs u) = u)
   \<and> (code (phoneOTP u) = Some c \<and> expiresAt (phoneOTP u) = Some ex \<and> attempts (phoneOTP u) = 0
       \<and> w1 \<noteq> c \<and> w2 \<noteq> c \<and> w3 \<noteq> c \<and> t1 < ex \<and> t2 < ex \<and> t3 < ex \<longrightarrow>
      list_all (\<lambda>r. \<not> isValid r)
        (fst (verifyOTP_calls ((t1, w1) # (t2, w2) # (t3, w3) # cs) u)))
   \<and> (findOne p (users st) = Some u \<and> isActive u \<and> 3 \<le> attempts (phoneOTP u)
       \<and> otp_format s \<and> p \<noteq> [] \<longrightarrow>
      status (fst (verifyOTP g now (Some p) (Some s) st)) = 400
      \<and> \<not> success (fst (verifyOTP g now (Some p) (Some s) st)))
   \<and> attempts (phoneOTP (snd (generateOTP now drawn u))) = 0"
  using verifyOTP_calls_locked [of u cs]
    three_wrong_then_locked [of u c ex w1 w2 w3 t1 t2 t3 cs]
    verifyOTP_locked_400 [of p st u s g now]
  by (simp add: generateOTP_def Let_def)

theorem verifyOTP_locked_after_three_attempts_witness:
  "list_all (\<lambda>r. \<not> isValid r)
      (fst (verifyOTP_calls [(1000, ''042917''), (2000, ''042917'')]
        \<lparr>uid = 1, phoneNumber = ''+15551234567'', isActive = True,
          phoneOTP = \<lparr>code = Some ''042917'', expiresAt = Some 60000, attempts = 3\<rparr>,
          otpRequestCount = \<lparr>otp_request_count.count = 1, lastRequest = 0\<rparr>,
          user.refreshToken = None\<rparr>))
   \<and> snd (verifyOTP_calls [(1000, ''042917''), (2000, ''042917'')]
        \<lparr>uid = 1, phoneNumber = ''+15551234567'', isActive = True,
          phoneOTP = \<lparr>code = Some ''042917'', expiresAt = Some 60000, attempts = 3\<rparr>,
          otpRequestCount = \<lparr>otp_request_count.count = 1, lastRequest = 0\<rparr>,
          user.refreshToken = None\<rparr>)
       = \<lparr>uid = 1, phoneNumber = ''+15551234567'', isActive = True,
          phoneOTP = \<lparr>code = Some ''042917'', expiresAt = Some 60000, attempts = 3\<rparr>,
          otpRequestCount = \<lparr>otp_request_count.count = 1, lastRequest = 0\<rparr>,
          user.refreshToken = None\<rparr>
   \<and> list_all (\<lambda>r. \<not> isValid r)
      (fst (verifyOTP_calls
        [(1000, ''111111''), (2000, ''222222''), (3000, ''333333''), (4000, ''042917'')]
        \<lparr>uid = 1, phoneNumber = ''+15551234567'', isActive = True,
          phoneOTP = \<lparr>code = Some ''042917'', expiresAt = Some 60000, attempts = 0\<rparr>,
          otpRequestCount = \<lparr>otp_request_count.count = 1, lastRequest = 0\<rparr>,
          user.refreshToken = None\<rparr>))
   \<and> status (fst (verifyOTP (\<lambda>i. (''access'', ''refresh'')) 1000 (Some ''+15551234567'') (Some ''042917'')
        \<lparr>limiter = Map.empty,
        users = [\<lparr>uid = 1, phoneNumber = ''+15551234567'', isActive = True,
          phoneOTP = \<lparr>code = Some ''042917'', expiresAt = Some 60000, attempts = 3\<rparr>,
          otpRequestCount = \<lparr>otp_request_count.count = 1, lastRequest = 0\<rparr>,
          user.refreshToken = None\<rparr>]\<rparr>)) = 400"
  using verifyOTP_locked_after_three_attempts [where
      u = "\<lparr>uid = 1, phoneNumber = ''+15551234567'', isActive = True,
          phoneOTP = \<lparr>code = Some ''042917'', expiresAt = Some 60000, attempts = 3\<rparr>,
          otpRequestCount = \<lparr>otp_request_count.count = 1, lastRequest = 0\<rparr>,
          user.refreshToken = None\<rparr>"
      and cs = "[(1000, ''042917''), (2000, ''042917'')]"
      and p = "''+15551234567''" and s = "''042917''" and g = "(\<lambda>i. (''access'', ''refresh''))" and now = 1000
      and st = "\<lparr>limiter = Map.empty,
        users = [\<lparr>uid = 1, phoneNumber = ''+15551234567'', isActive = True,
          phoneOTP = \<lparr>code = Some ''042917'', expiresAt = Some 60000, attempts = 3\<rparr>,
          otpRequestCount = \<lparr>otp_request_count.count = 1, lastRequest = 0\<rparr>,
          user.refreshToken = None\<rparr>]\<rparr>"]
    verifyOTP_locked_after_three_attempts [where
      u = "\<lparr>uid = 1, phoneNumber = ''+15551234567'', isActive = True,
          phoneOTP = \<lparr>code = Some ''042917'', expiresAt = Some 60000, attempts = 0\<rparr>,
          otpRequestCount = \<lparr>otp_request_count.count = 1, lastRequest = 0\<rparr>,
          user.refreshToken = None\<rparr>"
      and c = "''042917''" and ex = 60000
      and ?w1.0 = "''111111''" and ?w2.0 = "''222222''" and ?w3.0 = "''333333''"
      and ?t1.0 = 1000 and ?t2.0 = 2000 and ?t3.0 = 3000 and cs = "[(4000, ''042917'')]"]
  by (simp add: findOne_def otp_format_def isDigit_def)

lemma verifyOTP_malformed:
  assumes "case otp_field of None \<Rightarrow> True | Some s \<Rightarrow> \<not> otp_format s"
  shows "verifyOTP g now phone otp_field st = (r, st') \<Longrightarrow>
         status r = 400 \<and> \<not> success r \<and> st' = st"
  using assms by (auto simp: verifyOTP_def json_def split: option.splits if_splits)

text \<open>
  Claim C5. A \<open>POST /otp/verify\<close> request whose \<open>otp\<close> field is missing or does not
  match \<open>^\d{6}$\<close> is answered with HTTP 400 and \<open>success: false\<close>, and the state
  (users and rate limiter) is left as it was.
\<close>

theorem verifyOTP_rejects_malformed_otp:
  "(case otp_field of None \<Rightarrow> True | Some s \<Rightarrow> \<not> otp_format s) \<Longrightarrow>
   status (fst (verifyOTP g now phone otp_field st)) = 400
   \<and> \<not> success (fst (verifyOTP g now phone otp_field st))
   \<and> snd (verifyOTP g now phone otp_field st) = st"
  using verifyOTP_malformed [of otp_field g now phone st] by (cases "verifyOTP g now phone otp_field st") simp

theorem verifyOTP_rejects_malformed_otp_witness:
  "\<not> otp_format ''12345''
   \<and> status (fst (verifyOTP (\<lambda>i. (''access'', ''refresh'')) 1000 (Some ''+15551234567'') (Some ''12345'')
        \<lparr>limiter = Map.empty,
        users = [\<lparr>uid = 1, phoneNumber = ''+15551234567'', isActive = True,
          phoneOTP = \<lparr>code = Some ''042917'', expiresAt = Some 60000, attempts = 3\<rparr>,
          otpRequestCount = \<lparr>otp_request_count.count = 1, lastRequest = 0\<rparr>,
          user.refreshToken = None\<rparr>]\<rparr>)) = 400
   \<and> \<not> success (fst (verifyOTP (\<lambda>i. (''access'', ''refresh'')) 1000 (Some ''+15551234567'') (Some ''12345'')
        \<lparr>limiter = Map.empty,
        users = [\<lparr>uid = 1, phoneNumber = ''+15551234567'', isActive = True,
          phoneOTP = \<lparr>code = Some ''042917'', expiresAt = Some 60000, attempts = 3\<rparr>,
          otpRequestCount = \<lparr>otp_request_count.count = 1, lastRequest = 0\<rparr>,
          user.refreshToken = None\<rparr>]\<rparr>))
   \<and> snd (verifyOTP (\<lambda>i. (''access'', ''refresh'')) 1000 (Some ''+15551234567'') (Some ''12345'')
        \<lparr>limiter = Map.empty,
        users = [\<lparr>uid = 1, phoneNumber = ''+15551234567'', isActive = True,
          phoneOTP = \<lparr>code = Some ''042917'', expiresAt = Some 60000, attempts = 3\<rparr>,
          otpRequestCount = \<lparr>otp_request_count.count = 1, lastRequest = 0\<rparr>,
          user.refreshToken = None\<rparr>]\<rparr>)
       = \<lparr>limiter = Map.empty,
        users = [\<lparr>uid = 1, phoneNumber = ''+15551234567'', isActive = True,
          phoneOTP = \<lparr>code = Some ''042917'', expiresAt = Some 60000, attempts = 3\<rparr>,
          otpRequestCount = \<lparr>otp_request_count.count = 1, lastRequest = 0\<rparr>,
          user.refreshToken = None\<rparr>]\<rparr>"
  using verifyOTP_rejects_malformed_otp [where otp_field = "Some ''12345''" and g = "(\<lambda>i. (''access'', ''refresh''))"
      and now = 1000 and phone = "Some ''+15551234567''"
      and st = "\<lparr>limiter = Map.empty,
        users = [\<lparr>uid = 1, phoneNumber = ''+15551234567'', isActive = True,
          phoneOTP = \<lparr>code = Some ''042917'', expiresAt = Some 60000, attempts = 3\<rparr>,
          otpRequestCount = \<lparr>otp_request_count.count = 1, lastRequest = 0\<rparr>,
          user.refreshToken = None\<rparr>]\<rparr>"]
  by (simp add: otp_format_def)

section \<open>Properties of the send and resend handlers\<close>

lemma resendOTP_unexpired:
  assumes "findOne p (users st) = Some u" and "expiresAt (phoneOTP u) = Some ex" and "now < ex"
  shows "status (fst (resendOTP e now drawn p st)) = 429
     \<and> \<not> success (fst (resendOTP e now drawn p st))
     \<and> users (snd (resendOTP e now drawn p st)) = users st
     \<and> response.retryAfter (fst (resendOTP e now drawn p st)) =
         (if allowed (fst (checkLimit now p (limiter st))) then Some ex
          else limit_result.retryAfter (fst (checkLimit now p (limiter st))))"
proof (cases "checkLimit now p (limiter st)")
  case (Pair r lim)
  then show ?thesis using assms
    by (simp add: resendOTP_def rate_limited_def json_def Let_def)
qed

text \<open>
  Claim C6, as amended. A \<open>POST /otp/resend\<close> request for a user whose OTP has not yet
  expired is answered with HTTP 429 and leaves every user record as it was (no new OTP, no
  quota charge). When the rate limiter allows the request, \<open>retryAfter\<close> is the existing
  \<open>expiresAt\<close>; when the rate limiter refuses it, \<open>retryAfter\<close> is the rate limiter's.
\<close>

theorem resendOTP_unexpired_429:
  "findOne p (users st) = Some u \<and> expiresAt (phoneOTP u) = Some ex \<and> now < ex \<longrightarrow>
     status (fst (resendOTP e now drawn p st)) = 429
     \<and> \<not> success (fst (resendOTP e now drawn p st))
     \<and> users (snd (resendOTP e now drawn p st)) = users st
     \<and> (allowed (fst (checkLimit now p (limiter st))) \<longrightarrow>
          response.retryAfter (fst (resendOTP e now drawn p st)) = Some ex)
     \<and> (\<not> allowed (fst (checkLimit now p (limiter st))) \<longrightarrow>
          response.retryAfter (fst (resendOTP e now drawn p st))
            = limit_result.retryAfter (fst (checkLimit now p (limiter st))))"
  using resendOTP_unexpired [of p st u ex now e drawn] by simp

theorem resendOTP_unexpired_429_witness:
  "findOne ''+15551234567''
      [\<lparr>uid = 1, phoneNumber = ''+15551234567'', isActive = True,
        phoneOTP = \<lparr>code = Some ''042917'', expiresAt = Some 60000, attempts = 0\<rparr>,
        otpRequestCount = \<lparr>otp_request_count.count = 1, lastRequest = 0\<rparr>,
        refreshToken = None\<rparr>]
     = Some \<lparr>uid = 1, phoneNumber = ''+15551234567'', isActive = True,
        phoneOTP = \<lparr>code = Some ''042917'', expiresAt = Some 60000, attempts = 0\<rparr>,
        otpRequestCount = \<lparr>otp_request_count.count = 1, lastRequest = 0\<rparr>,
        refreshToken = None\<rparr>
   \<and> allowed (fst (checkLimit 5000 ''+15551234567'' Map.empty))
   \<and> status (fst (resendOTP
        \<lparr>NODE_ENV = ''production'', messageBirdClient = None, twilioClient = Some Delivered\<rparr>
        5000 ''123456'' ''+15551234567''
        \<lparr>limiter = Map.empty,
         users = [\<lparr>uid = 1, phoneNumber = ''+15551234567'', isActive = True,
            phoneOTP = \<lparr>code = Some ''042917'', expiresAt = Some 60000, attempts = 0\<rparr>,
            otpRequestCount = \<lparr>otp_request_count.count = 1, lastRequest = 0\<rparr>,
            refreshToken = None\<rparr>]\<rparr>)) = 429
   \<and> response.retryAfter (fst (resendOTP
        \<lparr>NODE_ENV = ''production'', messageBirdClient = None, twilioClient = Some Delivered\<rparr>
        5000 ''123456'' ''+15551234567''
        \<lparr>limiter = Map.empty,
         users = [\<lparr>uid = 1, phoneNumber = ''+15551234567'', isActive = True,
            phoneOTP = \<lparr>code = Some ''042917'', expiresAt = Some 60000, attempts = 0\<rparr>,
            otpRequestCount = \<lparr>otp_request_count.count = 1, lastRequest = 0\<rparr>,
            refreshToken = None\<rparr>]\<rparr>)) = Some 60000"
  using resendOTP_unexpired_429 [where p = "''+15551234567''"
      and st = "\<lparr>limiter = Map.empty,
         users = [\<lparr>uid = 1, phoneNumber = ''+15551234567'', isActive = True,
            phoneOTP = \<lparr>code = Some ''042917'', expiresAt = Some 60000, attempts = 0\<rparr>,
            otpRequestCount = \<lparr>otp_request_count.count = 1, lastRequest = 0\<rparr>,
            refreshToken = None\<rparr>]\<rparr>"
      and u = "\<lparr>uid = 1, phoneNumber = ''+15551234567'', isActive = True,
            phoneOTP = \<lparr>code = Some ''042917'', expiresAt = Some 60000, attempts = 0\<rparr>,
            otpRequestCount = \<lparr>otp_request_count.count = 1, lastRequest = 0\<rparr>,
            refreshToken = None\<rparr>"
      and ex = 60000 and now = 5000
      and e = "\<lparr>NODE_ENV = ''production'', messageBirdClient = None, twilioClient = Some Delivered\<rparr>"
      and drawn = "''123456''"]
  by (simp add: findOne_def checkLimit_def)

text \<open>
  The claim C6 as first stated fails: on the eleventh request of the hour the rate limiter
  refuses first, and \<open>retryAfter\<close> is the end of its window (\<open>now\<close> plus one hour),
  not the \<open>expiresAt\<close> of the user's unexpired OTP.
\<close>

theorem resendOTP_rate_limited_counterexample:
  "findOne ''+15551234567''
      [\<lparr>uid = 1, phoneNumber = ''+15551234567'', isActive = True,
        phoneOTP = \<lparr>code = Some ''042917'', expiresAt = Some 60000, attempts = 0\<rparr>,
        otpRequestCount = \<lparr>otp_request_count.count = 1, lastRequest = 0\<rparr>,
        refreshToken = None\<rparr>]
     = Some \<lparr>uid = 1, phoneNumber = ''+15551234567'', isActive = True,
        phoneOTP = \<lparr>code = Some ''042917'', expiresAt = Some 60000, attempts = 0\<rparr>,
        otpRequestCount = \<lparr>otp_request_count.count = 1, lastRequest = 0\<rparr>,
        refreshToken = None\<rparr>
   \<and> status (fst (resendOTP
        \<lparr>NODE_ENV = ''production'', messageBirdClient = None, twilioClient = Some Delivered\<rparr>
        5000 ''123456'' ''+15551234567''
        \<lparr>limiter = [''+15551234567'' \<mapsto> \<lparr>attempt.count = 10, timestamp = 0, blocked = False\<rparr>],
         users = [\<lparr>uid = 1, phoneNumber = ''+15551234567'', isActive = True,
            phoneOTP = \<lparr>code = Some ''042917'', expiresAt = Some 60000, attempts = 0\<rparr>,
            otpRequestCount = \<lparr>otp_request_count.count = 1, lastRequest = 0\<rparr>,
            refreshToken = None\<rparr>]\<rparr>)) = 429
   \<and> response.retryAfter (fst (resendOTP
        \<lparr>NODE_ENV = ''production'', messageBirdClient = None, twilioClient = Some Delivered\<rparr>
        5000 ''123456'' ''+15551234567''
        \<lparr>limiter = [''+15551234567'' \<mapsto> \<lparr>attempt.count = 10, timestamp = 0, blocked = False\<rparr>],
         users = [\<lparr>uid = 1, phoneNumber = ''+15551234567'', isActive = True,
            phoneOTP = \<lparr>code = Some ''042917'', expiresAt = Some 60000, attempts = 0\<rparr>,
            otpRequestCount = \<lparr>otp_request_count.count = 1, lastRequest = 0\<rparr>,
            refreshToken = None\<rparr>]\<rparr>)) = Some 3605000"
  by (simp add: findOne_def resendOTP_def checkLimit_def cleanupInterval_def rate_limited_def
        json_def Let_def)

lemma sendSMS_text: "sendSMS e p t = sms_result e p"
  by (simp add: sms_result_def sendSMS_def sendSMS_body_def)

lemma generateOTP_case:
  "(case generateOTP now d u of (g, u1) \<Rightarrow> f g u1) = f d (snd (generateOTP now d u))"
  by (simp add: generateOTP_def Let_def)

lemma otp_field_ok_simps:
  "otp_field_ok e (json 400 b m)" "otp_field_ok e (json 404 b m)" "otp_field_ok e (json 401 b m)"
  "otp_field_ok e (rate_limited r)" "otp_field_ok e (quota_exceeded now u)"
  "otp_field_ok e (sendOTP_catch e err)" "otp_field_ok e (resendOTP_catch e err)"
  "otp_field_ok e (otp_sent e txt g u)"
  "otp_field_ok e ((json 429 b m)\<lparr>response.retryAfter := x\<rparr>)"
  by (simp_all add: otp_field_ok_def json_def rate_limited_def quota_exceeded_def
        sendOTP_catch_def resendOTP_catch_def server_error_def otp_sent_def Let_def)

lemma sendOTP_otp_field: "otp_field_ok e (fst (sendOTP e now d phone st))"
  by (simp add: sendOTP_def Let_def otp_field_ok_simps sendSMS_text generateOTP_case
        split: option.splits prod.splits sum.splits)

lemma resendOTP_otp_field: "otp_field_ok e (fst (resendOTP e now d p st))"
  by (simp add: resendOTP_def Let_def otp_field_ok_simps sendSMS_text generateOTP_case
        split: option.splits prod.splits sum.splits)

lemma otp_sent_hidden:
  "NODE_ENV e \<noteq> ''development'' \<Longrightarrow>
   otp_sent e txt g1 (snd (generateOTP now g1 u)) = otp_sent e txt g2 (snd (generateOTP now g2 u))"
  by (simp add: otp_sent_def json_def generateOTP_def Let_def)

lemma sendOTP_hidden:
  "NODE_ENV e \<noteq> ''development'' \<Longrightarrow>
   fst (sendOTP e now d1 phone st) = fst (sendOTP e now d2 phone st)"
  using otp_sent_hidden [of e "''OTP sent successfully''" d1 now _ d2]
  by (simp add: sendOTP_def Let_def sendSMS_text generateOTP_case
        split: option.splits prod.splits sum.splits)

lemma resendOTP_hidden:
  "NODE_ENV e \<noteq> ''development'' \<Longrightarrow>
   fst (resendOTP e now d1 p st) = fst (resendOTP e now d2 p st)"
  using otp_sent_hidden [of e "''New OTP sent successfully''" d1 now _ d2]
  by (simp add: resendOTP_def Let_def sendSMS_text generateOTP_case
        split: option.splits prod.splits sum.splits)

text \<open>
  Claim C8. A successful (HTTP 200) answer of \<open>sendOTP\<close> or \<open>resendOTP\<close> carries the
  \<open>otp\<close> field exactly when \<open>NODE_ENV\<close> is \<open>development\<close>. Outside development, two
  executions that differ only in the drawn code give the same response.
\<close>

theorem otp_only_revealed_in_development:
  "(status (fst (sendOTP e now d phone st)) = 200 \<longrightarrow>
      (otp (fst (sendOTP e now d phone st)) \<noteq> None) = (NODE_ENV e = ''development''))
   \<and> (status (fst (resendOTP e now d p st)) = 200 \<longrightarrow>
      (otp (fst (resendOTP e now d p st)) \<noteq> None) = (NODE_ENV e = ''development''))
   \<and> (NODE_ENV e \<noteq> ''development'' \<longrightarrow>
        fst (sendOTP e now d phone st) = fst (sendOTP e now d' phone st)
        \<and> fst (resendOTP e now d p st) = fst (resendOTP e now d' p st))"
  using sendOTP_otp_field [of e now d phone st] resendOTP_otp_field [of e now d p st]
    sendOTP_hidden [of e now d phone st d'] resendOTP_hidden [of e now d p st d']
  by (simp add: otp_field_ok_def)

theorem otp_only_revealed_in_development_witness:
  "status (fst (sendOTP \<lparr>NODE_ENV = ''development'', messageBirdClient = None, twilioClient = None\<rparr>
        1000 ''042917'' (Some ''+15551234567'')
        \<lparr>limiter = Map.empty,
        users = [\<lparr>uid = 1, phoneNumber = ''+15551234567'', isActive = True,
          phoneOTP = \<lparr>code = None, expiresAt = None, attempts = 0\<rparr>,
          otpRequestCount = \<lparr>otp_request_count.count = 0, lastRequest = 0\<rparr>,
          user.refreshToken = None\<rparr>]\<rparr>)) = 200
   \<and> otp (fst (sendOTP \<lparr>NODE_ENV = ''development'', messageBirdClient = None, twilioClient = None\<rparr>
        1000 ''042917'' (Some ''+15551234567'')
        \<lparr>limiter = Map.empty,
        users = [\<lparr>uid = 1, phoneNumber = ''+15551234567'', isActive = True,
          phoneOTP = \<lparr>code = None, expiresAt = None, attempts = 0\<rparr>,
          otpRequestCount = \<lparr>otp_request_count.count = 0, lastRequest = 0\<rparr>,
          user.refreshToken = None\<rparr>]\<rparr>)) \<noteq> None
   \<and> status (fst (resendOTP \<lparr>NODE_ENV = ''development'', messageBirdClient = None, twilioClient = None\<rparr>
        1000 ''042917'' ''+15551234567''
        \<lparr>limiter = Map.empty,
        users = [\<lparr>uid = 1, phoneNumber = ''+15551234567'', isActive = True,
          phoneOTP = \<lparr>code = None, expiresAt = None, attempts = 0\<rparr>,
          otpRequestCount = \<lparr>otp_request_count.count = 0, lastRequest = 0\<rparr>,
          user.refreshToken = None\<rparr>]\<rparr>)) = 200
   \<and> otp (fst (resendOTP \<lparr>NODE_ENV = ''development'', messageBirdClient = None, twilioClient = None\<rparr>
        1000 ''042917'' ''+15551234567''
        \<lparr>limiter = Map.empty,
        users = [\<lparr>uid = 1, phoneNumber = ''+15551234567'', isActive = True,
          phoneOTP = \<lparr>code = None, expiresAt = None, attempts = 0\<rparr>,
          otpRequestCount = \<lparr>otp_request_count.count = 0, lastRequest = 0\<rparr>,
          user.refreshToken = None\<rparr>]\<rparr>)) \<noteq> None
   \<and> status (fst (sendOTP \<lparr>NODE_ENV = ''production'', messageBirdClient = None, twilioClient = Some Delivered\<rparr>
        1000 ''042917'' (Some ''+15551234567'')
        \<lparr>limiter = Map.empty,
        users = [\<lparr>uid = 1, phoneNumber = ''+15551234567'', isActive = True,
          phoneOTP = \<lparr>code = None, expiresAt = None, attempts = 0\<rparr>,
          otpRequestCount = \<lparr>otp_request_count.count = 0, lastRequest = 0\<rparr>,
          user.refreshToken = None\<rparr>]\<rparr>)) = 200
   \<and> otp (fst (sendOTP \<lparr>NODE_ENV = ''production'', messageBirdClient = None, twilioClient = Some Delivered\<rparr>
        1000 ''042917'' (Some ''+15551234567'')
        \<lparr>limiter = Map.empty,
        users = [\<lparr>uid = 1, phoneNumber = ''+15551234567'', isActive = True,
          phoneOTP = \<lparr>code = None, expiresAt = None, attempts = 0\<rparr>,
          otpRequestCount = \<lparr>otp_request_count.count = 0, lastRequest = 0\<rparr>,
          user.refreshToken = None\<rparr>]\<rparr>)) = None
   \<and> fst (sendOTP \<lparr>NODE_ENV = ''production'', messageBirdClient = None, twilioClient = Some Delivered\<rparr>
        1000 ''042917'' (Some ''+15551234567'')
        \<lparr>limiter = Map.empty,
        users = [\<lparr>uid = 1, phoneNumber = ''+15551234567'', isActive = True,
          phoneOTP = \<lparr>code = None, expiresAt = None, attempts = 0\<rparr>,
          otpRequestCount = \<lparr>otp_request_count.count = 0, lastRequest = 0\<rparr>,
          user.refreshToken = None\<rparr>]\<rparr>) = fst (sendOTP \<lparr>NODE_ENV = ''production'', messageBirdClient = None, twilioClient = Some Delivered\<rparr>
        1000 ''123456'' (Some ''+15551234567'')
        \<lparr>limiter = Map.empty,
        users = [\<lparr>uid = 1, phoneNumber = ''+15551234567'', isActive = True,
          phoneOTP = \<lparr>code = None, expiresAt = None, attempts = 0\<rparr>,
          otpRequestCount = \<lparr>otp_request_count.count = 0, lastRequest = 0\<rparr>,
          user.refreshToken = None\<rparr>]\<rparr>)
   \<and> fst (resendOTP \<lparr>NODE_ENV = ''production'', messageBirdClient = None, twilioClient = Some Delivered\<rparr>
        1000 ''042917'' ''+15551234567''
        \<lparr>limiter = Map.empty,
        users = [\<lparr>uid = 1, phoneNumber = ''+15551234567'', isActive = True,
          phoneOTP = \<lparr>code = None, expiresAt = None, attempts = 0\<rparr>,
          otpRequestCount = \<lparr>otp_request_count.count = 0, lastRequest = 0\<rparr>,
          user.refreshToken = None\<rparr>]\<rparr>) = fst (resendOTP \<lparr>NODE_ENV = ''production'', messageBirdClient = None, twilioClient = Some Delivered\<rparr>
        1000 ''123456'' ''+15551234567''
        \<lparr>limiter = Map.empty,
        users = [\<lparr>uid = 1, phoneNumber = ''+15551234567'', isActive = True,
          phoneOTP = \<lparr>code = None, expiresAt = None, attempts = 0\<rparr>,
          otpRequestCount = \<lparr>otp_request_count.count = 0, lastRequest = 0\<rparr>,
          user.refreshToken = None\<rparr>]\<rparr>)"
proof -
  have a: "status (fst (sendOTP \<lparr>NODE_ENV = ''development'', messageBirdClient = None, twilioClient = None\<rparr>
        1000 ''042917'' (Some ''+15551234567'')
        \<lparr>limiter = Map.empty,
        users = [\<lparr>uid = 1, phoneNumber = ''+15551234567'', isActive = True,
          phoneOTP = \<lparr>code = None, expiresAt = None, attempts = 0\<rparr>,
          otpRequestCount = \<lparr>otp_request_count.count = 0, lastRequest = 0\<rparr>,
          user.refreshToken = None\<rparr>]\<rparr>)) = 200"
    by code_simp
  have c: "status (fst (resendOTP \<lparr>NODE_ENV = ''development'', messageBirdClient = None, twilioClient = None\<rparr>
        1000 ''042917'' ''+15551234567''
        \<lparr>limiter = Map.empty,
        users = [\<lparr>uid = 1, phoneNumber = ''+15551234567'', isActive = True,
          phoneOTP = \<lparr>code = None, expiresAt = None, attempts = 0\<rparr>,
          otpRequestCount = \<lparr>otp_request_count.count = 0, lastRequest = 0\<rparr>,
          user.refreshToken = None\<rparr>]\<rparr>)) = 200"
    by code_simp
  have e: "status (fst (sendOTP \<lparr>NODE_ENV = ''production'', messageBirdClient = None, twilioClient = Some Delivered\<rparr>
        1000 ''042917'' (Some ''+15551234567'')
        \<lparr>limiter = Map.empty,
        users = [\<lparr>uid = 1, phoneNumber = ''+15551234567'', isActive = True,
          phoneOTP = \<lparr>code = None, expiresAt = None, attempts = 0\<rparr>,
          otpRequestCount = \<lparr>otp_request_count.count = 0, lastRequest = 0\<rparr>,
          user.refreshToken = None\<rparr>]\<rparr>)) = 200"
    by code_simp
  have dv: "NODE_ENV \<lparr>NODE_ENV = ''development'', messageBirdClient = None, twilioClient = None\<rparr> = ''development''"
    by simp
  have pr: "NODE_ENV \<lparr>NODE_ENV = ''production'', messageBirdClient = None, twilioClient = Some Delivered\<rparr> \<noteq> ''development''"
    by simp
  show ?thesis
    using a c e dv pr
      otp_only_revealed_in_development [where e = "\<lparr>NODE_ENV = ''development'', messageBirdClient = None, twilioClient = None\<rparr>" and now = 1000 and d = "''042917''"
        and phone = "Some ''+15551234567''" and p = "''+15551234567''" and st = "\<lparr>limiter = Map.empty,
        users = [\<lparr>uid = 1, phoneNumber = ''+15551234567'', isActive = True,
          phoneOTP = \<lparr>code = None, expiresAt = None, attempts = 0\<rparr>,
          otpRequestCount = \<lparr>otp_request_count.count = 0, lastRequest = 0\<rparr>,
          user.refreshToken = None\<rparr>]\<rparr>"]
      otp_only_revealed_in_development [where e = "\<lparr>NODE_ENV = ''production'', messageBirdClient = None, twilioClient = Some Delivered\<rparr>" and now = 1000 and d = "''042917''"
        and d' = "''123456''" and phone = "Some ''+15551234567''" and p = "''+15551234567''" and st = "\<lparr>limiter = Map.empty,
        users = [\<lparr>uid = 1, phoneNumber = ''+15551234567'', isActive = True,
          phoneOTP = \<lparr>code = None, expiresAt = None, attempts = 0\<rparr>,
          otpRequestCount = \<lparr>otp_request_count.count = 0, lastRequest = 0\<rparr>,
          user.refreshToken = None\<rparr>]\<rparr>"]
    by blast
qed

text \<open>
  Claim C3, at an input where it fails. In production, with Twilio as the only provider and
  Twilio rejecting the message with an error whose text contains \<open>phone number\<close>,
  \<open>sendOTP\<close> reverts the OTP and the quota charge but answers HTTP 400, while
  \<open>resendOTP\<close> on the same input answers HTTP 500.
\<close>

theorem sendOTP_delivery_failure_answers_400:
  "status (fst (sendOTP \<lparr>NODE_ENV = ''production'', messageBirdClient = None, twilioClient = Some (Rejected ''The From phone number +15005550001 is not a valid, SMS-capable inbound phone number or short code for your account.'')\<rparr>
        1000 ''042917'' (Some ''+15551234567'')
        \<lparr>limiter = Map.empty,
        users = [\<lparr>uid = 1, phoneNumber = ''+15551234567'', isActive = True,
          phoneOTP = \<lparr>code = None, expiresAt = None, attempts = 0\<rparr>,
          otpRequestCount = \<lparr>otp_request_count.count = 0, lastRequest = 0\<rparr>,
          user.refreshToken = None\<rparr>]\<rparr>)) = 400
   \<and> users (snd (sendOTP \<lparr>NODE_ENV = ''production'', messageBirdClient = None, twilioClient = Some (Rejected ''The From phone number +15005550001 is not a valid, SMS-capable inbound phone number or short code for your account.'')\<rparr>
        1000 ''042917'' (Some ''+15551234567'')
        \<lparr>limiter = Map.empty,
        users = [\<lparr>uid = 1, phoneNumber = ''+15551234567'', isActive = True,
          phoneOTP = \<lparr>code = None, expiresAt = None, attempts = 0\<rparr>,
          otpRequestCount = \<lparr>otp_request_count.count = 0, lastRequest = 0\<rparr>,
          user.refreshToken = None\<rparr>]\<rparr>))
       = [\<lparr>uid = 1, phoneNumber = ''+15551234567'', isActive = True,
          phoneOTP = \<lparr>code = None, expiresAt = None, attempts = 0\<rparr>,
          otpRequestCount = \<lparr>otp_request_count.count = 0, lastRequest = 1000\<rparr>,
          user.refreshToken = None\<rparr>]
   \<and> status (fst (resendOTP \<lparr>NODE_ENV = ''production'', messageBirdClient = None, twilioClient = Some (Rejected ''The From phone number +15005550001 is not a valid, SMS-capable inbound phone number or short code for your account.'')\<rparr>
        1000 ''042917'' ''+15551234567''
        \<lparr>limiter = Map.empty,
        users = [\<lparr>uid = 1, phoneNumber = ''+15551234567'', isActive = True,
          phoneOTP = \<lparr>code = None, expiresAt = None, attempts = 0\<rparr>,
          otpRequestCount = \<lparr>otp_request_count.count = 0, lastRequest = 0\<rparr>,
          user.refreshToken = None\<rparr>]\<rparr>)) = 500
   \<and> users (snd (resendOTP \<lparr>NODE_ENV = ''production'', messageBirdClient = None, twilioClient = Some (Rejected ''The From phone number +15005550001 is not a valid, SMS-capable inbound phone number or short code for your account.'')\<rparr>
        1000 ''042917'' ''+15551234567''
        \<lparr>limiter = Map.empty,
        users = [\<lparr>uid = 1, phoneNumber = ''+15551234567'', isActive = True,
          phoneOTP = \<lparr>code = None, expiresAt = None, attempts = 0\<rparr>,
          otpRequestCount = \<lparr>otp_request_count.count = 0, lastRequest = 0\<rparr>,
          user.refreshToken = None\<rparr>]\<rparr>))
       = [\<lparr>uid = 1, phoneNumber = ''+15551234567'', isActive = True,
          phoneOTP = \<lparr>code = None, expiresAt = None, attempts = 0\<rparr>,
          otpRequestCount = \<lparr>otp_request_count.count = 0, lastRequest = 1000\<rparr>,
          user.refreshToken = None\<rparr>]"
  by code_simp

text \<open>
  Claim C7, at an input where it fails. For a deactivated account \<open>sendOTP\<close> answers
  HTTP 401, while \<open>resendOTP\<close> generates and stores a new OTP and answers HTTP 200.
\<close>

theorem resendOTP_deactivated_account_gets_otp:
  "status (fst (sendOTP \<lparr>NODE_ENV = ''production'', messageBirdClient = None, twilioClient = Some Delivered\<rparr>
        1000 ''042917'' (Some ''+15551234567'')
        \<lparr>limiter = Map.empty,
        users = [\<lparr>uid = 1, phoneNumber = ''+15551234567'', isActive = False,
          phoneOTP = \<lparr>code = None, expiresAt = None, attempts = 0\<rparr>,
          otpRequestCount = \<lparr>otp_request_count.count = 0, lastRequest = 0\<rparr>,
          user.refreshToken = None\<rparr>]\<rparr>)) = 401
   \<and> status (fst (resendOTP \<lparr>NODE_ENV = ''production'', messageBirdClient = None, twilioClient = Some Delivered\<rparr>
        1000 ''042917'' ''+15551234567''
        \<lparr>limiter = Map.empty,
        users = [\<lparr>uid = 1, phoneNumber = ''+15551234567'', isActive = False,
          phoneOTP = \<lparr>code = None, expiresAt = None, attempts = 0\<rparr>,
          otpRequestCount = \<lparr>otp_request_count.count = 0, lastRequest = 0\<rparr>,
          user.refreshToken = None\<rparr>]\<rparr>)) = 200
   \<and> users (snd (resendOTP \<lparr>NODE_ENV = ''production'', messageBirdClient = None, twilioClient = Some Delivered\<rparr>
        1000 ''042917'' ''+15551234567''
        \<lparr>limiter = Map.empty,
        users = [\<lparr>uid = 1, phoneNumber = ''+15551234567'', isActive = False,
          phoneOTP = \<lparr>code = None, expiresAt = None, attempts = 0\<rparr>,
          otpRequestCount = \<lparr>otp_request_count.count = 0, lastRequest = 0\<rparr>,
          user.refreshToken = None\<rparr>]\<rparr>))
       = [\<lparr>uid = 1, phoneNumber = ''+15551234567'', isActive = False,
          phoneOTP = \<lparr>code = Some ''042917'', expiresAt = Some 61000, attempts = 0\<rparr>,
          otpRequestCount = \<lparr>otp_request_count.count = 1, lastRequest = 1000\<rparr>,
          user.refreshToken = None\<rparr>]"
  by code_simp

end
